theory Spec2Isabelle
  imports Complex_Main
begin

section \<open>Error classification layer (lib/errors/types.ts)\<close>

text \<open>
  The enum \<open>ErrorCode\<close>: every member's value is the string of its own name, given by
  \<open>code_string\<close>.
\<close>

datatype ErrorCode =
    AUTH_INVALID_CREDENTIALS
  | AUTH_SESSION_EXPIRED
  | AUTH_USER_NOT_FOUND
  | AUTH_EMAIL_NOT_CONFIRMED
  | AUTH_EMAIL_ALREADY_EXISTS
  | AUTH_WEAK_PASSWORD
  | AUTH_UNAUTHORIZED
  | NETWORK_OFFLINE
  | NETWORK_TIMEOUT
  | NETWORK_CONNECTION_FAILED
  | DB_INSERT_FAILED
  | DB_UPDATE_FAILED
  | DB_DELETE_FAILED
  | DB_FETCH_FAILED
  | DB_NOT_FOUND
  | DB_CONSTRAINT_VIOLATION
  | DB_PERMISSION_DENIED
  | VALIDATION_FAILED
  | VALIDATION_REQUIRED_FIELD
  | VALIDATION_INVALID_FORMAT
  | UNKNOWN_ERROR
  | UNEXPECTED_ERROR
  | OPERATION_CANCELLED

fun code_string :: "ErrorCode \<Rightarrow> string" where
  "code_string AUTH_INVALID_CREDENTIALS = ''AUTH_INVALID_CREDENTIALS''"
| "code_string AUTH_SESSION_EXPIRED = ''AUTH_SESSION_EXPIRED''"
| "code_string AUTH_USER_NOT_FOUND = ''AUTH_USER_NOT_FOUND''"
| "code_string AUTH_EMAIL_NOT_CONFIRMED = ''AUTH_EMAIL_NOT_CONFIRMED''"
| "code_string AUTH_EMAIL_ALREADY_EXISTS = ''AUTH_EMAIL_ALREADY_EXISTS''"
| "code_string AUTH_WEAK_PASSWORD = ''AUTH_WEAK_PASSWORD''"
| "code_string AUTH_UNAUTHORIZED = ''AUTH_UNAUTHORIZED''"
| "code_string NETWORK_OFFLINE = ''NETWORK_OFFLINE''"
| "code_string NETWORK_TIMEOUT = ''NETWORK_TIMEOUT''"
| "code_string NETWORK_CONNECTION_FAILED = ''NETWORK_CONNECTION_FAILED''"
| "code_string DB_INSERT_FAILED = ''DB_INSERT_FAILED''"
| "code_string DB_UPDATE_FAILED = ''DB_UPDATE_FAILED''"
| "code_string DB_DELETE_FAILED = ''DB_DELETE_FAILED''"
| "code_string DB_FETCH_FAILED = ''DB_FETCH_FAILED''"
| "code_string DB_NOT_FOUND = ''DB_NOT_FOUND''"
| "code_string DB_CONSTRAINT_VIOLATION = ''DB_CONSTRAINT_VIOLATION''"
| "code_string DB_PERMISSION_DENIED = ''DB_PERMISSION_DENIED''"
| "code_string VALIDATION_FAILED = ''VALIDATION_FAILED''"
| "code_string VALIDATION_REQUIRED_FIELD = ''VALIDATION_REQUIRED_FIELD''"
| "code_string VALIDATION_INVALID_FORMAT = ''VALIDATION_INVALID_FORMAT''"
| "code_string UNKNOWN_ERROR = ''UNKNOWN_ERROR''"
| "code_string UNEXPECTED_ERROR = ''UNEXPECTED_ERROR''"
| "code_string OPERATION_CANCELLED = ''OPERATION_CANCELLED''"

datatype ErrorSeverity = LOW | MEDIUM | HIGH | CRITICAL

text \<open>\<open>String.prototype.startsWith\<close> and \<open>String.prototype.includes\<close>.\<close>

definition startsWith :: "'a list \<Rightarrow> 'a list \<Rightarrow> bool" where
  "startsWith s p = (take (length p) s = p)"

fun str_includes :: "'a list \<Rightarrow> 'a list \<Rightarrow> bool" where
  "str_includes [] sub = (sub = [])"
| "str_includes (c # cs) sub = (startsWith (c # cs) sub \<or> str_includes cs sub)"

text \<open>
  \<open>AppErrorOptions\<close>: an optional property is an \<open>option\<close>. The fields
  \<open>originalError\<close> and \<open>context\<close> are carried through untouched by the constructor and
  \<open>timestamp\<close> is the wall clock; none of the three is read by any code modelled here,
  so they are left out of both records.
\<close>

record AppErrorOptions =
  opt_code :: ErrorCode
  opt_message :: string
  opt_userMessage :: "string option"
  opt_severity :: "ErrorSeverity option"
  opt_recoverable :: "bool option"

record AppError =
  code :: ErrorCode
  message :: string
  userMessage :: string
  severity :: ErrorSeverity
  recoverable :: bool

fun getDefaultUserMessage :: "ErrorCode \<Rightarrow> string" where
  "getDefaultUserMessage AUTH_INVALID_CREDENTIALS = ''Invalid email or password. Please try again.''"
| "getDefaultUserMessage AUTH_SESSION_EXPIRED = ''Your session has expired. Please log in again.''"
| "getDefaultUserMessage AUTH_USER_NOT_FOUND = ''No account found with this email address.''"
| "getDefaultUserMessage AUTH_EMAIL_NOT_CONFIRMED = ''Please verify your email address before logging in.''"
| "getDefaultUserMessage AUTH_EMAIL_ALREADY_EXISTS = ''An account with this email already exists.''"
| "getDefaultUserMessage AUTH_WEAK_PASSWORD = ''Password is too weak. Please use a stronger password.''"
| "getDefaultUserMessage AUTH_UNAUTHORIZED = ''You don't have permission to perform this action.''"
| "getDefaultUserMessage NETWORK_OFFLINE = ''You appear to be offline. Please check your internet connection.''"
| "getDefaultUserMessage NETWORK_TIMEOUT = ''The request timed out. Please try again.''"
| "getDefaultUserMessage NETWORK_CONNECTION_FAILED = ''Unable to connect to the server. Please try again later.''"
| "getDefaultUserMessage DB_INSERT_FAILED = ''Failed to save the data. Please try again.''"
| "getDefaultUserMessage DB_UPDATE_FAILED = ''Failed to update the data. Please try again.''"
| "getDefaultUserMessage DB_DELETE_FAILED = ''Failed to delete the item. Please try again.''"
| "getDefaultUserMessage DB_FETCH_FAILED = ''Failed to load the data. Please refresh the page.''"
| "getDefaultUserMessage DB_NOT_FOUND = ''The requested item was not found.''"
| "getDefaultUserMessage DB_CONSTRAINT_VIOLATION = ''This operation violates data constraints.''"
| "getDefaultUserMessage DB_PERMISSION_DENIED = ''You don't have permission to access this data.''"
| "getDefaultUserMessage VALIDATION_FAILED = ''Please check your input and try again.''"
| "getDefaultUserMessage VALIDATION_REQUIRED_FIELD = ''Please fill in all required fields.''"
| "getDefaultUserMessage VALIDATION_INVALID_FORMAT = ''Please check the format of your input.''"
| "getDefaultUserMessage UNKNOWN_ERROR = ''An unexpected error occurred. Please try again.''"
| "getDefaultUserMessage UNEXPECTED_ERROR = ''Something went wrong. Please try again later.''"
| "getDefaultUserMessage OPERATION_CANCELLED = ''The operation was cancelled.''"

definition getDefaultSeverity :: "ErrorCode \<Rightarrow> ErrorSeverity" where
  "getDefaultSeverity c =
     (if startsWith (code_string c) ''AUTH_'' then HIGH
      else if startsWith (code_string c) ''NETWORK_'' then MEDIUM
      else if startsWith (code_string c) ''DB_'' then HIGH
      else if startsWith (code_string c) ''VALIDATION_'' then LOW
      else MEDIUM)"

definition nonRecoverable :: "ErrorCode list" where
  "nonRecoverable = [AUTH_UNAUTHORIZED, DB_PERMISSION_DENIED]"

definition isRecoverableByDefault :: "ErrorCode \<Rightarrow> bool" where
  "isRecoverableByDefault c = (c \<notin> set nonRecoverable)"

text \<open>
  The constructor. \<open>options.userMessage || d\<close> takes the default for an absent and for an
  empty string; \<open>options.severity || d\<close> takes it only for an absent severity (every
  member of \<open>ErrorSeverity\<close> is a non-empty string); \<open>options.recoverable ?? d\<close> takes it
  only for an absent flag, so an explicit \<open>false\<close> is kept.
\<close>

definition new_AppError :: "AppErrorOptions \<Rightarrow> AppError" where
  "new_AppError options =
     \<lparr> code = opt_code options,
       message = opt_message options,
       userMessage =
         (case opt_userMessage options of
            None \<Rightarrow> getDefaultUserMessage (opt_code options)
          | Some m \<Rightarrow> if m = [] then getDefaultUserMessage (opt_code options) else m),
       severity =
         (case opt_severity options of
            None \<Rightarrow> getDefaultSeverity (opt_code options)
          | Some s \<Rightarrow> s),
       recoverable =
         (case opt_recoverable options of
            None \<Rightarrow> isRecoverableByDefault (opt_code options)
          | Some r \<Rightarrow> r) \<rparr>"

section \<open>Status workflow (constants, StatusUpdateDropdown)\<close>

datatype MaterialRequestStatus = pending | approved | rejected | fulfilled

fun STATUS_TRANSITIONS :: "MaterialRequestStatus \<Rightarrow> MaterialRequestStatus list" where
  "STATUS_TRANSITIONS pending = [approved, rejected]"
| "STATUS_TRANSITIONS approved = [fulfilled, rejected]"
| "STATUS_TRANSITIONS rejected = [pending]"
| "STATUS_TRANSITIONS fulfilled = []"

text \<open>
  The component \<open>StatusUpdateDropdown\<close> for a request whose status is \<open>currentStatus\<close>.
  Its state is \<open>confirmDialog\<close>. What it renders decides which handlers can run at all:
  with no available transition it returns a bare badge, without menu and without dialog;
  otherwise it renders one menu item per member of \<open>availableTransitions\<close>, each
  calling \<open>handleStatusClick\<close> with its own status and disabled while a mutation is
  pending, and the confirmation dialog, whose confirm button calls \<open>handleConfirm\<close> and
  whose \<open>onOpenChange\<close> only rewrites \<open>open\<close>.
  A step returns the new state and the statuses passed to \<open>updateStatus.mutate\<close>.
  A run follows the component while the request keeps the status \<open>currentStatus\<close> and
  no mutation is pending.
\<close>

record confirmDialog =
  dlg_open :: bool
  targetStatus :: "MaterialRequestStatus option"

datatype dropdown_event =
    ItemClick MaterialRequestStatus
  | ConfirmClick
  | OpenChange bool

definition availableTransitions :: "MaterialRequestStatus \<Rightarrow> MaterialRequestStatus list" where
  "availableTransitions currentStatus = STATUS_TRANSITIONS currentStatus"

definition hasTransitions :: "MaterialRequestStatus \<Rightarrow> bool" where
  "hasTransitions currentStatus = (length (availableTransitions currentStatus) > 0)"

definition initialDialog :: confirmDialog where
  "initialDialog = \<lparr> dlg_open = False, targetStatus = None \<rparr>"

definition handleStatusClick :: "MaterialRequestStatus \<Rightarrow> confirmDialog" where
  "handleStatusClick s = \<lparr> dlg_open = True, targetStatus = Some s \<rparr>"

definition handleConfirm :: "confirmDialog \<Rightarrow> MaterialRequestStatus list" where
  "handleConfirm d = (case targetStatus d of Some s \<Rightarrow> [s] | None \<Rightarrow> [])"

fun dropdown_step ::
  "MaterialRequestStatus \<Rightarrow> bool \<Rightarrow> confirmDialog \<Rightarrow> dropdown_event
     \<Rightarrow> confirmDialog \<times> MaterialRequestStatus list" where
  "dropdown_step currentStatus isPending d (ItemClick s) =
     (if hasTransitions currentStatus \<and> s \<in> set (availableTransitions currentStatus)
         \<and> \<not> isPending
      then (handleStatusClick s, [])
      else (d, []))"
| "dropdown_step currentStatus isPending d ConfirmClick =
     (if hasTransitions currentStatus then (d, handleConfirm d) else (d, []))"
| "dropdown_step currentStatus isPending d (OpenChange b) =
     (if hasTransitions currentStatus then (d\<lparr> dlg_open := b \<rparr>, []) else (d, []))"

fun dropdown_run ::
  "MaterialRequestStatus \<Rightarrow> confirmDialog \<Rightarrow> dropdown_event list \<Rightarrow> MaterialRequestStatus list" where
  "dropdown_run currentStatus d [] = []"
| "dropdown_run currentStatus d (e # es) =
     (case dropdown_step currentStatus False d e of
        (d', out) \<Rightarrow> out @ dropdown_run currentStatus d' es)"

text \<open>
  Requesting the transition to \<open>target\<close>: the user picks \<open>target\<close> in the menu and
  confirms. The result lists the status changes handed to the mutation hook.
\<close>

definition requestTransition ::
  "MaterialRequestStatus \<Rightarrow> MaterialRequestStatus \<Rightarrow> MaterialRequestStatus list" where
  "requestTransition current target =
     dropdown_run current initialDialog [ItemClick target, ConfirmClick]"

section \<open>Data model (lib/supabase/types.ts, features/material-requests/types)\<close>

text \<open>
  Identifiers, names, timestamps and messages are strings whose content the code never
  inspects beyond comparison, so they are \<open>string\<close>. The search text is inspected
  (\<open>trim\<close>), so it is kept as the list of its UTF-16 code units. A JavaScript
  \<open>number\<close> that counts rows or pages is an \<open>int\<close>; the quantity of a request is
  never computed with and is a \<open>rat\<close>.
\<close>

type_synonym utf16 = "nat list"

datatype MaterialRequestPriority = low | medium | high | urgent

datatype MaterialUnit =
  unit_kg | unit_m | unit_pieces | unit_liters | unit_tons | unit_cubic_meters | unit_square_meters

record Profile =
  profile_id :: string
  full_name :: "string option"
  email :: string

record MaterialRequest =
  req_id :: string
  project_id :: "string option"
  material_name :: string
  quantity :: rat
  req_unit :: MaterialUnit
  status :: MaterialRequestStatus
  priority :: MaterialRequestPriority
  requested_by :: string
  requested_at :: string
  req_notes :: "string option"
  company_id :: string
  created_at :: string
  updated_at :: string

record MaterialRequestWithRelations = MaterialRequest +
  requester :: "Profile option"

text \<open>
  \<open>Insert\<close> and \<open>Update\<close> rows: an optional property is an \<open>option\<close> (\<open>None\<close>: the
  property is absent), a nullable one an \<open>option\<close> inside.
\<close>

record MaterialRequestInsert =
  ins_id :: "string option"
  ins_project_id :: "string option option"
  ins_material_name :: string
  ins_quantity :: rat
  ins_unit :: MaterialUnit
  ins_status :: "MaterialRequestStatus option"
  ins_priority :: MaterialRequestPriority
  ins_requested_by :: "string option"
  ins_requested_at :: "string option"
  ins_notes :: "string option option"
  ins_company_id :: "string option"

record MaterialRequestUpdate =
  upd_id :: "string option"
  upd_project_id :: "string option option"
  upd_material_name :: "string option"
  upd_quantity :: "rat option"
  upd_unit :: "MaterialUnit option"
  upd_status :: "MaterialRequestStatus option"
  upd_priority :: "MaterialRequestPriority option"
  upd_requested_by :: "string option"
  upd_requested_at :: "string option"
  upd_notes :: "string option option"
  upd_company_id :: "string option"

text \<open>
  The filter types: \<open>MaterialRequestStatus | "all"\<close> is a \<open>filter_choice\<close>.
\<close>

datatype 'a filter_choice = all_values | only 'a

record MaterialRequestFilters =
  filter_status :: "MaterialRequestStatus filter_choice option"
  filter_priority :: "MaterialRequestPriority filter_choice option"
  filter_search :: "utf16 option"

record PaginationParams =
  pageIndex :: int
  pageSize :: int

datatype sort_direction = asc | desc

record SortingParams =
  column :: string
  direction :: sort_direction

record PaginationMeta =
  totalCount :: int
  totalPages :: int
  currentPage :: int
  meta_pageSize :: int
  hasNextPage :: bool
  hasPreviousPage :: bool

record PaginatedResponse =
  data :: "MaterialRequestWithRelations list"
  pagination :: PaginationMeta

definition DEFAULT_PAGE_SIZE :: int where
  "DEFAULT_PAGE_SIZE = 10"

definition DEFAULT_SORTING :: SortingParams where
  "DEFAULT_SORTING = \<lparr> column = ''requested_at'', direction = desc \<rparr>"

text \<open>
  The local constants \<open>pageIndex\<close> and \<open>pageSize\<close> of the list fetch:
  \<open>pagination?.pageIndex ?? 0\<close> and \<open>pagination?.pageSize ?? DEFAULT_PAGE_SIZE\<close>.
\<close>

definition requestedPageIndex :: "PaginationParams option \<Rightarrow> int" where
  "requestedPageIndex pagination' = (case pagination' of None \<Rightarrow> 0 | Some p \<Rightarrow> pageIndex p)"

definition requestedPageSize :: "PaginationParams option \<Rightarrow> int" where
  "requestedPageSize pagination' =
     (case pagination' of None \<Rightarrow> DEFAULT_PAGE_SIZE | Some p \<Rightarrow> pageSize p)"

section \<open>The remote store as seen by the hooks\<close>

text \<open>
  The query the list hook builds: table, exact count, one order column, a row range and
  the filters in the order they are added.
\<close>

datatype filter_value = StatusValue MaterialRequestStatus | PriorityValue MaterialRequestPriority

datatype query_filter =
    FilterEq string filter_value
  | FilterIlike string utf16

record list_query =
  query_table :: string
  order_column :: string
  ascending :: bool
  range_from :: int
  range_to :: int
  query_filters :: "query_filter list"

record PostgrestError =
  pg_code :: string
  pg_message :: string

record list_reply =
  reply_data :: "MaterialRequest list option"
  reply_error :: "PostgrestError option"
  reply_count :: "int option"

record profiles_reply =
  profiles_data :: "Profile list option"
  profiles_error :: "PostgrestError option"

text \<open>
  The store is a parameter: one reply function per kind of call the hooks make. A call
  ending in \<open>.single()\<close> replies with an error or with a row. The update call carries
  the patch and the \<open>updated_at\<close> stamp the hook adds. Every operation returns, beside
  its result, the list of calls it made, in order.
\<close>

record remote_store =
  select_list :: "list_query \<Rightarrow> list_reply"
  select_profiles_in :: "string list \<Rightarrow> profiles_reply"
  select_single :: "string \<Rightarrow> PostgrestError + MaterialRequest"
  select_profile_single :: "string \<Rightarrow> Profile option"
  insert_single :: "MaterialRequestInsert \<Rightarrow> PostgrestError + MaterialRequest"
  update_single :: "string \<Rightarrow> MaterialRequestUpdate \<Rightarrow> string \<Rightarrow> PostgrestError + MaterialRequest"
  delete_eq :: "string \<Rightarrow> PostgrestError option"

datatype store_call =
    CallSelectList list_query
  | CallSelectProfilesIn "string list"
  | CallSelectSingle string
  | CallSelectProfileSingle string
  | CallInsert MaterialRequestInsert
  | CallUpdate string MaterialRequestUpdate string
  | CallDelete string

text \<open>
  What a hook function throws: an \<open>AppError\<close>, or another JavaScript error with its
  name and message.
\<close>

datatype thrown = AppErr AppError | OtherError string string

section \<open>Error parser (lib/errors/parsers.ts)\<close>

datatype db_operation = op_insert | op_update | op_delete | op_fetch

fun operationCodeMap :: "db_operation \<Rightarrow> ErrorCode" where
  "operationCodeMap op_insert = DB_INSERT_FAILED"
| "operationCodeMap op_update = DB_UPDATE_FAILED"
| "operationCodeMap op_delete = DB_DELETE_FAILED"
| "operationCodeMap op_fetch = DB_FETCH_FAILED"

definition parsePostgrestError :: "PostgrestError \<Rightarrow> db_operation \<Rightarrow> AppError" where
  "parsePostgrestError error operation =
     (let (code1, userMessage1) =
            (if pg_code error = ''PGRST116''
               then (DB_NOT_FOUND, Some ''The requested item was not found.'')
             else if pg_code error = ''23505''
               then (DB_CONSTRAINT_VIOLATION, Some ''This item already exists.'')
             else if pg_code error = ''23503''
               then (DB_CONSTRAINT_VIOLATION,
                     Some ''Cannot complete this operation due to related data.'')
             else if pg_code error = ''42501''
               then (DB_PERMISSION_DENIED,
                     Some ''You don't have permission to perform this action.'')
             else if pg_code error = ''42P01''
               then (DB_FETCH_FAILED,
                     Some ''A database error occurred. Please contact support.'')
             else if pg_code error = ''PGRST301''
               then (AUTH_SESSION_EXPIRED,
                     Some ''Your session has expired. Please log in again.'')
             else (operationCodeMap operation, None));
          (code2, userMessage2) =
            (if str_includes (pg_message error) ''row-level security''
               then (DB_PERMISSION_DENIED,
                     Some ''You don't have permission to access this data.'')
             else (code1, userMessage1))
      in new_AppError
           \<lparr> opt_code = code2, opt_message = pg_message error, opt_userMessage = userMessage2,
             opt_severity = None, opt_recoverable = None \<rparr>)"

section \<open>List and single fetch (hooks/use-material-requests.ts)\<close>

text \<open>
  \<open>String.prototype.trim\<close> removes the white space and line terminator code units of
  ECMAScript from both ends.
\<close>

definition isWhiteSpace :: "nat \<Rightarrow> bool" where
  "isWhiteSpace cu =
     (cu \<in> set [9, 10, 11, 12, 13, 32, 160, 5760, 8232, 8233, 8239, 8287, 12288, 65279]
      \<or> (8192 \<le> cu \<and> cu \<le> 8202))"

definition trim :: "utf16 \<Rightarrow> utf16" where
  "trim s = rev (dropWhile isWhiteSpace (rev (dropWhile isWhiteSpace s)))"

definition offlineError :: "string \<Rightarrow> string option \<Rightarrow> thrown" where
  "offlineError msg userMsg =
     AppErr (new_AppError
       \<lparr> opt_code = NETWORK_OFFLINE, opt_message = msg, opt_userMessage = userMsg,
         opt_severity = None, opt_recoverable = Some True \<rparr>)"

text \<open>
  The filters of the list query. A condition \<open>filters?.status && filters.status !== "all"\<close>
  holds for a present status other than \<open>"all"\<close> (every status is a non-empty string);
  \<open>filters?.search && filters.search.trim()\<close> holds for a present search whose trimmed
  text is not empty. The pattern is the template \<open>%${filters.search.trim()}%\<close>; 37 is the
  code unit of the percent sign.
\<close>

definition statusFilter :: "MaterialRequestFilters option \<Rightarrow> query_filter list" where
  "statusFilter filters =
     (case filters of
        None \<Rightarrow> []
      | Some f \<Rightarrow>
          (case filter_status f of
             Some (only s) \<Rightarrow> [FilterEq ''status'' (StatusValue s)]
           | _ \<Rightarrow> []))"

definition priorityFilter :: "MaterialRequestFilters option \<Rightarrow> query_filter list" where
  "priorityFilter filters =
     (case filters of
        None \<Rightarrow> []
      | Some f \<Rightarrow>
          (case filter_priority f of
             Some (only p) \<Rightarrow> [FilterEq ''priority'' (PriorityValue p)]
           | _ \<Rightarrow> []))"

definition searchFilter :: "MaterialRequestFilters option \<Rightarrow> query_filter list" where
  "searchFilter filters =
     (case filters of
        None \<Rightarrow> []
      | Some f \<Rightarrow>
          (case filter_search f of
             None \<Rightarrow> []
           | Some s \<Rightarrow>
               if s \<noteq> [] \<and> trim s \<noteq> []
               then [FilterIlike ''material_name'' ([37] @ trim s @ [37])]
               else []))"

definition buildListQuery ::
  "MaterialRequestFilters option \<Rightarrow> PaginationParams option \<Rightarrow> SortingParams option
     \<Rightarrow> list_query" where
  "buildListQuery filters pagination' sorting =
     (let pageIndex' = requestedPageIndex pagination';
          pageSize' = requestedPageSize pagination';
          sortColumn = (case sorting of None \<Rightarrow> column DEFAULT_SORTING | Some s \<Rightarrow> column s);
          sortDirection =
            (case sorting of None \<Rightarrow> direction DEFAULT_SORTING | Some s \<Rightarrow> direction s);
          from = pageIndex' * pageSize';
          to = from + pageSize' - 1
      in \<lparr> query_table = ''material_requests'',
           order_column = sortColumn,
           ascending = (sortDirection = asc),
           range_from = from,
           range_to = to,
           query_filters = statusFilter filters @ priorityFilter filters @ searchFilter filters \<rparr>)"

text \<open>
  \<open>Math.ceil(totalCount / pageSize)\<close>: the quotient of the two numbers, rounded up. The
  quotient is taken in the rationals; for a page size of zero JavaScript yields an
  infinity or NaN, which this model does not represent, so every statement about the
  result asks for a positive page size (the route's search schema admits 5 to 100).
\<close>

definition ceilOfQuotient :: "int \<Rightarrow> int \<Rightarrow> int" where
  "ceilOfQuotient n d = \<lceil>rat_of_int n / rat_of_int d\<rceil>"

text \<open>
  \<open>[...new Set(ids)]\<close> keeps the first occurrence of each id, in order;
  \<open>new Map(pairs)\<close> keeps, for a repeated key, the last pair.
\<close>

definition uniqueIds :: "string list \<Rightarrow> string list" where
  "uniqueIds ids = rev (remdups (rev ids))"

definition profileMap :: "Profile list \<Rightarrow> (string \<rightharpoonup> Profile)" where
  "profileMap ps = map_of (rev (map (\<lambda>p. (profile_id p, p)) ps))"

definition withRequester :: "Profile option \<Rightarrow> MaterialRequest \<Rightarrow> MaterialRequestWithRelations" where
  "withRequester p r =
     \<lparr> req_id = req_id r, project_id = project_id r, material_name = material_name r,
       quantity = quantity r, req_unit = req_unit r, status = status r,
       priority = priority r, requested_by = requested_by r,
       requested_at = requested_at r, req_notes = req_notes r,
       company_id = company_id r, created_at = created_at r, updated_at = updated_at r,
       requester = p \<rparr>"

definition fetchMaterialRequests ::
  "bool \<Rightarrow> remote_store \<Rightarrow> MaterialRequestFilters option \<Rightarrow> PaginationParams option
     \<Rightarrow> SortingParams option \<Rightarrow> (thrown + PaginatedResponse) \<times> store_call list" where
  "fetchMaterialRequests onLine remote filters pagination' sorting =
     (if \<not> onLine then
        (Inl (offlineError ''No internet connection''
               (Some ''You appear to be offline. Please check your connection and try again.'')),
         [])
      else
        let pageIndex' = requestedPageIndex pagination';
            pageSize' = requestedPageSize pagination';
            query = buildListQuery filters pagination' sorting;
            reply = select_list remote query
        in case reply_error reply of
             Some error \<Rightarrow>
               (Inl (AppErr (parsePostgrestError error op_fetch)), [CallSelectList query])
           | None \<Rightarrow>
               let totalCount' = (case reply_count reply of None \<Rightarrow> 0 | Some c \<Rightarrow> c);
                   materialRequests = (case reply_data reply of None \<Rightarrow> [] | Some rs \<Rightarrow> rs)
               in if materialRequests = [] then
                    (Inr \<lparr> data = [],
                           pagination =
                             \<lparr> totalCount = totalCount',
                               totalPages = ceilOfQuotient totalCount' pageSize',
                               currentPage = pageIndex',
                               meta_pageSize = pageSize',
                               hasNextPage = False,
                               hasPreviousPage = (pageIndex' > 0) \<rparr> \<rparr>,
                     [CallSelectList query])
                  else
                    let requesterIds = uniqueIds (map requested_by materialRequests);
                        profilesReply = select_profiles_in remote requesterIds;
                        profiles =
                          (case profiles_data profilesReply of None \<Rightarrow> [] | Some ps \<Rightarrow> ps);
                        data' =
                          map (\<lambda>request.
                                 withRequester (profileMap profiles (requested_by request)) request)
                              materialRequests;
                        totalPages' = ceilOfQuotient totalCount' pageSize'
                    in (Inr \<lparr> data = data',
                              pagination =
                                \<lparr> totalCount = totalCount',
                                  totalPages = totalPages',
                                  currentPage = pageIndex',
                                  meta_pageSize = pageSize',
                                  hasNextPage = (pageIndex' < totalPages' - 1),
                                  hasPreviousPage = (pageIndex' > 0) \<rparr> \<rparr>,
                        [CallSelectList query, CallSelectProfilesIn requesterIds]))"

definition fetchMaterialRequest ::
  "bool \<Rightarrow> remote_store \<Rightarrow> string
     \<Rightarrow> (thrown + MaterialRequestWithRelations) \<times> store_call list" where
  "fetchMaterialRequest onLine remote rid =
     (if \<not> onLine then (Inl (offlineError ''No internet connection'' None), [])
      else
        case select_single remote rid of
          Inl error \<Rightarrow>
            (Inl (AppErr (parsePostgrestError error op_fetch)), [CallSelectSingle rid])
        | Inr request \<Rightarrow>
            (Inr (withRequester (select_profile_single remote (requested_by request)) request),
             [CallSelectSingle rid, CallSelectProfileSingle (requested_by request)]))"

section \<open>Mutation functions (use-create-material-request.ts, use-update-material-request.ts,
  use-update-status.ts, use-delete-material-request.ts)\<close>

definition createMaterialRequest ::
  "bool \<Rightarrow> remote_store \<Rightarrow> MaterialRequestInsert
     \<Rightarrow> (thrown + MaterialRequest) \<times> store_call list" where
  "createMaterialRequest onLine remote row =
     (if \<not> onLine then
        (Inl (offlineError ''No internet connection''
               (Some ''You appear to be offline. Please check your connection and try again.'')),
         [])
      else
        case insert_single remote row of
          Inl error \<Rightarrow> (Inl (AppErr (parsePostgrestError error op_insert)), [CallInsert row])
        | Inr result \<Rightarrow> (Inr result, [CallInsert row]))"

text \<open>
  \<open>updateMaterialRequest\<close> sends \<open>{ ...data, updated_at: now }\<close> and \<open>updateStatus\<close> sends
  \<open>{ status, updated_at: now }\<close>, where \<open>now\<close> is the clock reading, a parameter here.
\<close>

definition updateMaterialRequest ::
  "bool \<Rightarrow> remote_store \<Rightarrow> string \<Rightarrow> string \<times> MaterialRequestUpdate
     \<Rightarrow> (thrown + MaterialRequest) \<times> store_call list" where
  "updateMaterialRequest onLine remote now params =
     (case params of (rid, data') \<Rightarrow>
        if \<not> onLine then
          (Inl (offlineError ''No internet connection''
                 (Some ''You appear to be offline. Your changes could not be saved.'')),
           [])
        else
          case update_single remote rid data' now of
            Inl error \<Rightarrow>
              (Inl (AppErr (parsePostgrestError error op_update)), [CallUpdate rid data' now])
          | Inr result \<Rightarrow> (Inr result, [CallUpdate rid data' now]))"

definition statusUpdateData :: "MaterialRequestStatus \<Rightarrow> MaterialRequestUpdate" where
  "statusUpdateData s =
     \<lparr> upd_id = None, upd_project_id = None, upd_material_name = None, upd_quantity = None,
       upd_unit = None, upd_status = Some s, upd_priority = None, upd_requested_by = None,
       upd_requested_at = None, upd_notes = None, upd_company_id = None \<rparr>"

definition updateStatus ::
  "bool \<Rightarrow> remote_store \<Rightarrow> string \<Rightarrow> string \<times> MaterialRequestStatus
     \<Rightarrow> (thrown + MaterialRequest) \<times> store_call list" where
  "updateStatus onLine remote now params =
     (case params of (rid, status') \<Rightarrow>
        if \<not> onLine then
          (Inl (offlineError ''No internet connection''
                 (Some ''You appear to be offline. Status could not be updated.'')),
           [])
        else
          case update_single remote rid (statusUpdateData status') now of
            Inl error \<Rightarrow>
              (Inl (AppErr (parsePostgrestError error op_update)),
               [CallUpdate rid (statusUpdateData status') now])
          | Inr result \<Rightarrow> (Inr result, [CallUpdate rid (statusUpdateData status') now]))"

definition deleteMaterialRequest ::
  "bool \<Rightarrow> remote_store \<Rightarrow> string \<Rightarrow> (thrown + unit) \<times> store_call list" where
  "deleteMaterialRequest onLine remote rid =
     (if \<not> onLine then
        (Inl (offlineError ''No internet connection''
               (Some ''You appear to be offline. The item could not be deleted.'')),
         [])
      else
        case delete_eq remote rid of
          Some error \<Rightarrow> (Inl (AppErr (parsePostgrestError error op_delete)), [CallDelete rid])
        | None \<Rightarrow> (Inr (), [CallDelete rid]))"

section \<open>Retry policy of the read hooks (use-material-requests.ts, main.tsx)\<close>




definition queryClient_retry :: "nat \<Rightarrow> thrown \<Rightarrow> bool" where
  "queryClient_retry failureCount error =
     (case error of
        AppErr e \<Rightarrow>
          if code e = AUTH_SESSION_EXPIRED \<or> code e = DB_PERMISSION_DENIED
             \<or> code e = AUTH_UNAUTHORIZED \<or> code e = DB_NOT_FOUND
          then False
          else failureCount < 2
      | OtherError n m \<Rightarrow> failureCount < 2)"





definition thrownCode :: "thrown \<Rightarrow> ErrorCode option" where
  "thrownCode t = (case t of AppErr e \<Rightarrow> Some (code e) | OtherError n m \<Rightarrow> None)"

section \<open>Query cache (the part of the query client the mutation hooks use)\<close>

text \<open>
  A query key is an array; the keys of \<open>QUERY_KEYS\<close> hold strings and, for a list, one
  object of filters, pagination and sorting.
\<close>

datatype key_part =
    KeyStr string
  | KeyParams "MaterialRequestFilters option" "PaginationParams option" "SortingParams option"

type_synonym QueryKey = "key_part list"

definition QUERY_KEYS_materialRequests :: QueryKey where
  "QUERY_KEYS_materialRequests = [KeyStr ''material-requests'']"

definition QUERY_KEYS_materialRequestsList ::
  "MaterialRequestFilters option \<Rightarrow> PaginationParams option \<Rightarrow> SortingParams option
     \<Rightarrow> QueryKey" where
  "QUERY_KEYS_materialRequestsList filters pagination' sorting =
     [KeyStr ''material-requests'', KeyStr ''list'', KeyParams filters pagination' sorting]"

definition QUERY_KEYS_materialRequest :: "string \<Rightarrow> QueryKey" where
  "QUERY_KEYS_materialRequest rid = [KeyStr ''material-requests'', KeyStr ''detail'', KeyStr rid]"

text \<open>
  What a query holds is a JavaScript value: the list queries store the
  \<open>PaginatedResponse\<close> object their query function returns, the detail queries a request
  object; the mutation hooks read and write arrays of requests. \<open>CachedObject\<close> is any
  other object, such as the spread of a patch over a value that is not a request.
\<close>

datatype cached =
    CachedPage PaginatedResponse
  | CachedRequest MaterialRequestWithRelations
  | CachedArray "MaterialRequestWithRelations list"
  | CachedObject

record query_entry =
  entry_data :: "cached option"
  isInvalidated :: bool

type_synonym query_cache = "(QueryKey \<times> query_entry) list"

text \<open>
  The contract of the query client. A filter \<open>{ queryKey }\<close> matches the queries whose
  key starts with the filter's key (the filter keys used here hold strings only).
  \<open>getQueryData\<close> reads the query of exactly that key. \<open>setQueryData\<close> does nothing when
  the new data is \<open>undefined\<close>; otherwise it stores the data, creating the query when
  there is none, and clears the invalidation mark. \<open>setQueriesData\<close> calls the updater on
  each matching query in turn; an exception of the updater ends it, keeping what was
  stored before. \<open>invalidateQueries\<close> marks each matching query, which makes the library
  fetch it again. \<open>cancelQueries\<close> concerns fetches in flight and leaves the stored data
  and marks as they are.
\<close>

definition matchesKey :: "QueryKey \<Rightarrow> QueryKey \<Rightarrow> bool" where
  "matchesKey filterKey queryKey = startsWith queryKey filterKey"

definition getQueryData :: "query_cache \<Rightarrow> QueryKey \<Rightarrow> cached option" where
  "getQueryData c k = (case map_of c k of None \<Rightarrow> None | Some q \<Rightarrow> entry_data q)"

definition findAll :: "query_cache \<Rightarrow> QueryKey \<Rightarrow> query_cache" where
  "findAll c filterKey = filter (\<lambda>(k, q). matchesKey filterKey k) c"

definition getQueriesData :: "query_cache \<Rightarrow> QueryKey \<Rightarrow> (QueryKey \<times> cached option) list" where
  "getQueriesData c filterKey = map (\<lambda>(k, q). (k, entry_data q)) (findAll c filterKey)"

definition setQueryData :: "query_cache \<Rightarrow> QueryKey \<Rightarrow> cached option \<Rightarrow> query_cache" where
  "setQueryData c k d =
     (case d of
        None \<Rightarrow> c
      | Some v \<Rightarrow>
          if k \<in> fst ` set c
          then map (\<lambda>(k', q). if k' = k
                               then (k', q\<lparr> entry_data := Some v, isInvalidated := False \<rparr>)
                               else (k', q)) c
          else c @ [(k, \<lparr> entry_data = Some v, isInvalidated = False \<rparr>)])"

fun setQueryDataEach ::
  "QueryKey list \<Rightarrow> (cached option \<Rightarrow> thrown + cached option) \<Rightarrow> query_cache
     \<Rightarrow> query_cache \<times> thrown option" where
  "setQueryDataEach [] updater c = (c, None)"
| "setQueryDataEach (k # ks) updater c =
     (case updater (getQueryData c k) of
        Inl t \<Rightarrow> (c, Some t)
      | Inr d \<Rightarrow> setQueryDataEach ks updater (setQueryData c k d))"

definition setQueriesData ::
  "query_cache \<Rightarrow> QueryKey \<Rightarrow> (cached option \<Rightarrow> thrown + cached option)
     \<Rightarrow> query_cache \<times> thrown option" where
  "setQueriesData c filterKey updater =
     setQueryDataEach (map fst (findAll c filterKey)) updater c"

definition invalidateQueries :: "query_cache \<Rightarrow> QueryKey \<Rightarrow> query_cache" where
  "invalidateQueries c filterKey =
     map (\<lambda>(k, q). if matchesKey filterKey k then (k, q\<lparr> isInvalidated := True \<rparr>) else (k, q)) c"

definition cancelQueries :: "query_cache \<Rightarrow> QueryKey \<Rightarrow> query_cache" where
  "cancelQueries c filterKey = c"

section \<open>Mutation life cycle\<close>

text \<open>
  What the user interface is shown, each with the cache as it stands at that moment.
\<close>

datatype ui_event =
    ErrorToast AppError
  | OnErrorCallback AppError
  | OnSuccessCallback

record client_state =
  cache :: query_cache
  store_calls :: "store_call list"
  surfaced :: "(ui_event \<times> query_cache) list"

record hook_options =
  showErrorToast :: bool
  onErrorGiven :: bool
  onSuccessGiven :: bool

text \<open>
  The contract of the library's mutation: \<open>onMutate\<close> runs first; when it throws, the
  mutation function is not called and \<open>onError\<close> gets an undefined context; otherwise
  the mutation function runs, followed by \<open>onError\<close> with the context or by
  \<open>onSuccess\<close>; \<open>onSettled\<close> runs last in every case.
\<close>

definition executeMutation ::
  "('v \<Rightarrow> query_cache \<Rightarrow> query_cache \<times> (thrown + 'ctx))
   \<Rightarrow> ('v \<Rightarrow> (thrown + 'r) \<times> store_call list)
   \<Rightarrow> (thrown \<Rightarrow> 'v \<Rightarrow> 'ctx option \<Rightarrow> client_state \<Rightarrow> client_state)
   \<Rightarrow> ('r \<Rightarrow> client_state \<Rightarrow> client_state)
   \<Rightarrow> ('v \<Rightarrow> client_state \<Rightarrow> client_state)
   \<Rightarrow> 'v \<Rightarrow> client_state \<Rightarrow> client_state \<times> (thrown + 'r)" where
  "executeMutation onMutate mutationFn onError onSuccess onSettled variables w =
     (case onMutate variables (cache w) of
        (c1, Inl t) \<Rightarrow>
          (onSettled variables (onError t variables None (w\<lparr> cache := c1 \<rparr>)), Inl t)
      | (c1, Inr context) \<Rightarrow>
          (case mutationFn variables of
             (Inl t, calls) \<Rightarrow>
               (onSettled variables
                  (onError t variables (Some context)
                     (w\<lparr> cache := c1, store_calls := store_calls w @ calls \<rparr>)),
                Inl t)
           | (Inr result, calls) \<Rightarrow>
               (onSettled variables
                  (onSuccess result (w\<lparr> cache := c1, store_calls := store_calls w @ calls \<rparr>)),
                Inr result)))"

text \<open>
  The part shared by the three \<open>onError\<close> handlers after their rollback: the error is
  kept when it is an \<open>AppError\<close> and wrapped with the hook's code otherwise; then the
  toast is shown when \<open>showErrorToast\<close> is set, then the caller's \<open>onError\<close> is called.
\<close>

definition toAppError :: "ErrorCode \<Rightarrow> thrown \<Rightarrow> AppError" where
  "toAppError fallback error =
     (case error of
        AppErr e \<Rightarrow> e
      | OtherError n m \<Rightarrow>
          new_AppError \<lparr> opt_code = fallback, opt_message = m, opt_userMessage = None,
                         opt_severity = None, opt_recoverable = None \<rparr>)"

definition surfaceError :: "hook_options \<Rightarrow> AppError \<Rightarrow> client_state \<Rightarrow> client_state" where
  "surfaceError options appError w =
     w\<lparr> surfaced := surfaced w
           @ (if showErrorToast options then [(ErrorToast appError, cache w)] else [])
           @ (if onErrorGiven options then [(OnErrorCallback appError, cache w)] else []) \<rparr>"

definition surfaceSuccess :: "hook_options \<Rightarrow> client_state \<Rightarrow> client_state" where
  "surfaceSuccess options w =
     w\<lparr> surfaced := surfaced w
           @ (if onSuccessGiven options then [(OnSuccessCallback, cache w)] else []) \<rparr>"

section \<open>Status mutation hook (use-update-status.ts)\<close>

definition statusUpdater ::
  "string \<Rightarrow> MaterialRequestStatus \<Rightarrow> cached option \<Rightarrow> cached option" where
  "statusUpdater rid status' old =
     (case old of
        Some (CachedArray rs) \<Rightarrow>
          Some (CachedArray
                  (map (\<lambda>request. if req_id request = rid
                                   then request\<lparr> status := status' \<rparr> else request) rs))
      | other \<Rightarrow> other)"

definition useUpdateStatus_onMutate ::
  "string \<times> MaterialRequestStatus \<Rightarrow> query_cache
     \<Rightarrow> query_cache \<times> (thrown + (QueryKey \<times> cached option) list)" where
  "useUpdateStatus_onMutate variables c =
     (case variables of (rid, status') \<Rightarrow>
        let c0 = cancelQueries c QUERY_KEYS_materialRequests;
            queries = getQueriesData c0 QUERY_KEYS_materialRequests;
            previousData = queries;
            c1 = fold (\<lambda>(queryKey, d) c'.
                         setQueryData c' queryKey
                           (statusUpdater rid status' (getQueryData c' queryKey)))
                      queries c0
        in (c1, Inr previousData))"

definition useUpdateStatus_onError ::
  "hook_options \<Rightarrow> thrown \<Rightarrow> string \<times> MaterialRequestStatus
     \<Rightarrow> (QueryKey \<times> cached option) list option \<Rightarrow> client_state \<Rightarrow> client_state" where
  "useUpdateStatus_onError options error variables context w =
     (let c1 = (case context of
                  Some previousData \<Rightarrow>
                    fold (\<lambda>(queryKey, d) c'. setQueryData c' queryKey d) previousData (cache w)
                | None \<Rightarrow> cache w)
      in surfaceError options (toAppError DB_UPDATE_FAILED error) (w\<lparr> cache := c1 \<rparr>))"

definition useUpdateStatus_onSettled ::
  "string \<times> MaterialRequestStatus \<Rightarrow> client_state \<Rightarrow> client_state" where
  "useUpdateStatus_onSettled variables w =
     w\<lparr> cache := invalidateQueries (cache w) QUERY_KEYS_materialRequests \<rparr>"

definition useUpdateStatus ::
  "hook_options \<Rightarrow> bool \<Rightarrow> remote_store \<Rightarrow> string \<Rightarrow> string \<times> MaterialRequestStatus
     \<Rightarrow> client_state \<Rightarrow> client_state \<times> (thrown + MaterialRequest)" where
  "useUpdateStatus options onLine remote now =
     executeMutation useUpdateStatus_onMutate (updateStatus onLine remote now)
       (useUpdateStatus_onError options) (\<lambda>result. surfaceSuccess options)
       useUpdateStatus_onSettled"

section \<open>Update mutation hook (use-update-material-request.ts)\<close>

text \<open>
  The spread \<open>{ ...request, ...data }\<close>: each property present in the patch replaces the
  request's.
\<close>

definition applyUpdate ::
  "MaterialRequestWithRelations \<Rightarrow> MaterialRequestUpdate \<Rightarrow> MaterialRequestWithRelations" where
  "applyUpdate r d =
     r\<lparr> req_id := (case upd_id d of None \<Rightarrow> req_id r | Some v \<Rightarrow> v),
        project_id := (case upd_project_id d of None \<Rightarrow> project_id r | Some v \<Rightarrow> v),
        material_name := (case upd_material_name d of None \<Rightarrow> material_name r | Some v \<Rightarrow> v),
        quantity := (case upd_quantity d of None \<Rightarrow> quantity r | Some v \<Rightarrow> v),
        req_unit := (case upd_unit d of None \<Rightarrow> req_unit r | Some v \<Rightarrow> v),
        status := (case upd_status d of None \<Rightarrow> status r | Some v \<Rightarrow> v),
        priority := (case upd_priority d of None \<Rightarrow> priority r | Some v \<Rightarrow> v),
        requested_by := (case upd_requested_by d of None \<Rightarrow> requested_by r | Some v \<Rightarrow> v),
        requested_at := (case upd_requested_at d of None \<Rightarrow> requested_at r | Some v \<Rightarrow> v),
        req_notes := (case upd_notes d of None \<Rightarrow> req_notes r | Some v \<Rightarrow> v),
        company_id := (case upd_company_id d of None \<Rightarrow> company_id r | Some v \<Rightarrow> v) \<rparr>"

definition updateUpdater ::
  "string \<Rightarrow> MaterialRequestUpdate \<Rightarrow> cached option \<Rightarrow> thrown + cached option" where
  "updateUpdater rid data' old =
     (case old of
        Some (CachedArray rs) \<Rightarrow>
          Inr (Some (CachedArray
                  (map (\<lambda>request. if req_id request = rid
                                   then applyUpdate request data' else request) rs)))
      | other \<Rightarrow> Inr other)"

definition spreadOver :: "cached \<Rightarrow> MaterialRequestUpdate \<Rightarrow> cached" where
  "spreadOver previousRequest data' =
     (case previousRequest of
        CachedRequest r \<Rightarrow> CachedRequest (applyUpdate r data')
      | other \<Rightarrow> CachedObject)"

definition useUpdateMaterialRequest_onMutate ::
  "string \<times> MaterialRequestUpdate \<Rightarrow> query_cache
     \<Rightarrow> query_cache \<times> (thrown + cached option \<times> cached option)" where
  "useUpdateMaterialRequest_onMutate variables c =
     (case variables of (rid, data') \<Rightarrow>
        let c0 = cancelQueries c QUERY_KEYS_materialRequests;
            previousRequests = getQueryData c0 QUERY_KEYS_materialRequests
        in case setQueriesData c0 QUERY_KEYS_materialRequests (updateUpdater rid data') of
             (c1, Some t) \<Rightarrow> (c1, Inl t)
           | (c1, None) \<Rightarrow>
               let previousRequest = getQueryData c1 (QUERY_KEYS_materialRequest rid);
                   c2 = (case previousRequest of
                           Some v \<Rightarrow>
                             setQueryData c1 (QUERY_KEYS_materialRequest rid)
                               (Some (spreadOver v data'))
                         | None \<Rightarrow> c1)
               in (c2, Inr (previousRequests, previousRequest)))"

definition useUpdateMaterialRequest_onError ::
  "hook_options \<Rightarrow> thrown \<Rightarrow> string \<times> MaterialRequestUpdate
     \<Rightarrow> (cached option \<times> cached option) option \<Rightarrow> client_state \<Rightarrow> client_state" where
  "useUpdateMaterialRequest_onError options error variables context w =
     (let c1 = (case context of
                  Some (Some previousRequests, previousRequest) \<Rightarrow>
                    setQueryData (cache w) QUERY_KEYS_materialRequests (Some previousRequests)
                | other \<Rightarrow> cache w);
          c2 = (case context of
                  Some (previousRequests, Some previousRequest) \<Rightarrow>
                    setQueryData c1 (QUERY_KEYS_materialRequest (fst variables))
                      (Some previousRequest)
                | other \<Rightarrow> c1)
      in surfaceError options (toAppError DB_UPDATE_FAILED error) (w\<lparr> cache := c2 \<rparr>))"

definition useUpdateMaterialRequest_onSettled ::
  "string \<times> MaterialRequestUpdate \<Rightarrow> client_state \<Rightarrow> client_state" where
  "useUpdateMaterialRequest_onSettled variables w =
     w\<lparr> cache :=
          invalidateQueries
            (invalidateQueries (cache w) QUERY_KEYS_materialRequests)
            (QUERY_KEYS_materialRequest (fst variables)) \<rparr>"

definition useUpdateMaterialRequest ::
  "hook_options \<Rightarrow> bool \<Rightarrow> remote_store \<Rightarrow> string \<Rightarrow> string \<times> MaterialRequestUpdate
     \<Rightarrow> client_state \<Rightarrow> client_state \<times> (thrown + MaterialRequest)" where
  "useUpdateMaterialRequest options onLine remote now =
     executeMutation useUpdateMaterialRequest_onMutate (updateMaterialRequest onLine remote now)
       (useUpdateMaterialRequest_onError options) (\<lambda>result. surfaceSuccess options)
       useUpdateMaterialRequest_onSettled"

section \<open>Delete mutation hook (use-delete-material-request.ts)\<close>

text \<open>
  The updater \<open>(old) => old?.filter(...)\<close>: \<open>undefined\<close> for \<open>undefined\<close>, the filtered
  array for an array, and for any other object, which has no \<open>filter\<close> method, a
  \<open>TypeError\<close> (its message is the engine's wording; nothing below depends on it).
\<close>

definition deleteUpdater :: "string \<Rightarrow> cached option \<Rightarrow> thrown + cached option" where
  "deleteUpdater rid old =
     (case old of
        None \<Rightarrow> Inr None
      | Some (CachedArray rs) \<Rightarrow>
          Inr (Some (CachedArray (filter (\<lambda>request. req_id request \<noteq> rid) rs)))
      | Some other \<Rightarrow> Inl (OtherError ''TypeError'' ''old?.filter is not a function''))"

definition useDeleteMaterialRequest_onMutate ::
  "string \<Rightarrow> query_cache \<Rightarrow> query_cache \<times> (thrown + cached option)" where
  "useDeleteMaterialRequest_onMutate rid c =
     (let c0 = cancelQueries c QUERY_KEYS_materialRequests;
          previousRequests = getQueryData c0 QUERY_KEYS_materialRequests
      in case setQueriesData c0 QUERY_KEYS_materialRequests (deleteUpdater rid) of
           (c1, Some t) \<Rightarrow> (c1, Inl t)
         | (c1, None) \<Rightarrow> (c1, Inr previousRequests))"

definition useDeleteMaterialRequest_onError ::
  "hook_options \<Rightarrow> thrown \<Rightarrow> string \<Rightarrow> cached option option \<Rightarrow> client_state
     \<Rightarrow> client_state" where
  "useDeleteMaterialRequest_onError options error rid context w =
     (let c1 = (case context of
                  Some (Some previousRequests) \<Rightarrow>
                    setQueryData (cache w) QUERY_KEYS_materialRequests (Some previousRequests)
                | other \<Rightarrow> cache w)
      in surfaceError options (toAppError DB_DELETE_FAILED error) (w\<lparr> cache := c1 \<rparr>))"

definition useDeleteMaterialRequest_onSettled :: "string \<Rightarrow> client_state \<Rightarrow> client_state" where
  "useDeleteMaterialRequest_onSettled rid w =
     w\<lparr> cache := invalidateQueries (cache w) QUERY_KEYS_materialRequests \<rparr>"

definition useDeleteMaterialRequest ::
  "hook_options \<Rightarrow> bool \<Rightarrow> remote_store \<Rightarrow> string \<Rightarrow> client_state
     \<Rightarrow> client_state \<times> (thrown + unit)" where
  "useDeleteMaterialRequest options onLine remote =
     executeMutation useDeleteMaterialRequest_onMutate (deleteMaterialRequest onLine remote)
       (useDeleteMaterialRequest_onError options) (\<lambda>result. surfaceSuccess options)
       useDeleteMaterialRequest_onSettled"

text \<open>
  The types the hooks declare for the cache: an array of requests under the key
  \<open>["material-requests"]\<close> itself; every other query of that name space holds an object
  (a page under a list key, a request under a detail key).
\<close>

definition isArray :: "cached \<Rightarrow> bool" where
  "isArray v = (case v of CachedArray rs \<Rightarrow> True | other \<Rightarrow> False)"

definition typedEntry :: "QueryKey \<times> query_entry \<Rightarrow> bool" where
  "typedEntry kq =
     (case entry_data (snd kq) of
        None \<Rightarrow> True
      | Some v \<Rightarrow>
          if fst kq = QUERY_KEYS_materialRequests then isArray v
          else if matchesKey QUERY_KEYS_materialRequests (fst kq) then \<not> isArray v
          else True)"

definition typedCache :: "query_cache \<Rightarrow> bool" where
  "typedCache c = list_all typedEntry c"

definition cacheData :: "query_cache \<Rightarrow> (QueryKey \<times> cached option) list" where
  "cacheData c = map (\<lambda>(k, q). (k, entry_data q)) c"

text \<open>
  What is asked of a mutation that ran from the state \<open>w\<close> and failed with \<open>t\<close>: it
  ends with the error \<open>t\<close>; the data of every query is what it was in \<open>w\<close>; and what
  was surfaced is the classified error, in a toast (when enabled) and then in the caller's
  callback (when given), each at a moment when the data of every query was already what
  it was in \<open>w\<close>.
\<close>

definition rolledBack ::
  "ErrorCode \<Rightarrow> thrown \<Rightarrow> hook_options \<Rightarrow> client_state \<Rightarrow> client_state \<times> (thrown + 'r)
     \<Rightarrow> bool" where
  "rolledBack fallback t options w res =
     (snd res = Inl t
      \<and> cacheData (cache (fst res)) = cacheData (cache w)
      \<and> take (length (surfaced w)) (surfaced (fst res)) = surfaced w
      \<and> map fst (drop (length (surfaced w)) (surfaced (fst res)))
          = (if showErrorToast options then [ErrorToast (toAppError fallback t)] else [])
            @ (if onErrorGiven options then [OnErrorCallback (toAppError fallback t)] else [])
      \<and> list_all (\<lambda>c. cacheData c = cacheData (cache w))
            (map snd (drop (length (surfaced w)) (surfaced (fst res)))))"

section \<open>Example inputs\<close>

definition ex_opts :: "ErrorCode \<Rightarrow> AppErrorOptions" where
  "ex_opts c = \<lparr> opt_code = c, opt_message = ''m'', opt_userMessage = None,
                 opt_severity = None, opt_recoverable = None \<rparr>"

definition ex_row :: "string \<Rightarrow> MaterialRequestStatus \<Rightarrow> MaterialRequest" where
  "ex_row rid st =
     \<lparr> req_id = rid, project_id = None, material_name = ''Steel Bars'', quantity = 500,
       req_unit = unit_kg, status = st, priority = high, requested_by = ''u1'',
       requested_at = ''2024-01-01T00:00:00Z'', req_notes = None, company_id = ''c1'',
       created_at = ''2024-01-01T00:00:00Z'', updated_at = ''2024-01-01T00:00:00Z'' \<rparr>"

definition ex_pg_error :: PostgrestError where
  "ex_pg_error = \<lparr> pg_code = ''42501'', pg_message = ''permission denied'' \<rparr>"

text \<open>
  A store whose list call replies with the given rows and count, and whose every other
  call fails.
\<close>

definition ex_remote :: "MaterialRequest list \<Rightarrow> int \<Rightarrow> remote_store" where
  "ex_remote rs n =
     \<lparr> select_list = (\<lambda>q. \<lparr> reply_data = Some rs, reply_error = None, reply_count = Some n \<rparr>),
       select_profiles_in = (\<lambda>ids. \<lparr> profiles_data = Some [], profiles_error = None \<rparr>),
       select_single = (\<lambda>i. Inl ex_pg_error),
       select_profile_single = (\<lambda>i. None),
       insert_single = (\<lambda>r. Inl ex_pg_error),
       update_single = (\<lambda>i d t. Inl ex_pg_error),
       delete_eq = (\<lambda>i. Some ex_pg_error) \<rparr>"





definition ex_request :: "string \<Rightarrow> MaterialRequestStatus \<Rightarrow> MaterialRequestWithRelations" where
  "ex_request rid st = withRequester None (ex_row rid st)"

definition ex_page :: "MaterialRequestStatus \<Rightarrow> PaginatedResponse" where
  "ex_page st =
     \<lparr> data = [ex_request ''X'' st],
       pagination = \<lparr> totalCount = 1, totalPages = 1, currentPage = 0, meta_pageSize = 10,
                      hasNextPage = False, hasPreviousPage = False \<rparr> \<rparr>"

text \<open>
  A cache as the application fills it: one list query and the detail query of request X,
  both showing X as pending. And a cache that holds an array under the base key.
\<close>

definition ex_cache :: query_cache where
  "ex_cache =
     [(QUERY_KEYS_materialRequestsList None None None,
       \<lparr> entry_data = Some (CachedPage (ex_page pending)), isInvalidated = False \<rparr>),
      (QUERY_KEYS_materialRequest ''X'',
       \<lparr> entry_data = Some (CachedRequest (ex_request ''X'' pending)),
         isInvalidated = False \<rparr>)]"

definition ex_array_cache :: query_cache where
  "ex_array_cache =
     [(QUERY_KEYS_materialRequests,
       \<lparr> entry_data = Some (CachedArray [ex_request ''X'' pending, ex_request ''Y'' pending]),
         isInvalidated = False \<rparr>)]"

definition ex_state :: "query_cache \<Rightarrow> client_state" where
  "ex_state c = \<lparr> cache = c, store_calls = [], surfaced = [] \<rparr>"

definition ex_options :: hook_options where
  "ex_options = \<lparr> showErrorToast = True, onErrorGiven = True, onSuccessGiven = True \<rparr>"

definition ex_patch :: MaterialRequestUpdate where
  "ex_patch = (statusUpdateData approved)\<lparr> upd_material_name := Some ''Steel Rods'' \<rparr>"

text \<open>A store whose update call succeeds and returns the request as approved.\<close>

definition ex_remote_ok :: remote_store where
  "ex_remote_ok =
     (ex_remote [] 0)\<lparr> update_single := (\<lambda>i d t. Inr (ex_row i approved)),
                       delete_eq := (\<lambda>i. None) \<rparr>"

section \<open>Properties of the error layer\<close>

lemma getDefaultSeverity_cases:
  "getDefaultSeverity c =
     (if c \<in> {NETWORK_OFFLINE, NETWORK_TIMEOUT, NETWORK_CONNECTION_FAILED,
               UNKNOWN_ERROR, UNEXPECTED_ERROR, OPERATION_CANCELLED} then MEDIUM
      else if c \<in> {VALIDATION_FAILED, VALIDATION_REQUIRED_FIELD, VALIDATION_INVALID_FORMAT}
      then LOW else HIGH)"
  by (cases c) (simp_all add: getDefaultSeverity_def startsWith_def)

lemma isRecoverableByDefault_iff:
  "isRecoverableByDefault c \<longleftrightarrow> c \<noteq> AUTH_UNAUTHORIZED \<and> c \<noteq> DB_PERMISSION_DENIED"
  by (auto simp add: isRecoverableByDefault_def nonRecoverable_def)

text \<open>
  Claim C9. An error constructed with neither a severity nor a recoverable flag in its
  options gets its severity from the prefix of its kind: high for a kind starting with
  \<open>AUTH_\<close> or \<open>DB_\<close>, medium for \<open>NETWORK_\<close>, low for \<open>VALIDATION_\<close>; and it is
  recoverable unless its kind is \<open>AUTH_UNAUTHORIZED\<close> or \<open>DB_PERMISSION_DENIED\<close>.
\<close>

theorem C9_default_severity_and_recoverable:
  assumes "opt_severity options = None" and "opt_recoverable options = None"
  shows "(startsWith (code_string (opt_code options)) ''AUTH_''
            \<or> startsWith (code_string (opt_code options)) ''DB_''
          \<longrightarrow> severity (new_AppError options) = HIGH)
       \<and> (startsWith (code_string (opt_code options)) ''NETWORK_''
          \<longrightarrow> severity (new_AppError options) = MEDIUM)
       \<and> (startsWith (code_string (opt_code options)) ''VALIDATION_''
          \<longrightarrow> severity (new_AppError options) = LOW)
       \<and> (recoverable (new_AppError options) = False
            \<longleftrightarrow> opt_code options = AUTH_UNAUTHORIZED \<or> opt_code options = DB_PERMISSION_DENIED)"
proof -
  have sev: "severity (new_AppError options) = getDefaultSeverity (opt_code options)"
    using assms by (simp add: new_AppError_def)
  have rec: "recoverable (new_AppError options) = isRecoverableByDefault (opt_code options)"
    using assms by (simp add: new_AppError_def)
  show ?thesis
    unfolding sev rec isRecoverableByDefault_iff
    by (cases "opt_code options") (simp_all add: getDefaultSeverity_def startsWith_def)
qed

theorem C9_default_severity_and_recoverable_witness:
  "severity (new_AppError (ex_opts DB_PERMISSION_DENIED)) = HIGH
   \<and> recoverable (new_AppError (ex_opts DB_PERMISSION_DENIED)) = False
   \<and> severity (new_AppError (ex_opts AUTH_SESSION_EXPIRED)) = HIGH
   \<and> recoverable (new_AppError (ex_opts AUTH_SESSION_EXPIRED)) = True
   \<and> severity (new_AppError (ex_opts NETWORK_TIMEOUT)) = MEDIUM
   \<and> recoverable (new_AppError (ex_opts NETWORK_TIMEOUT)) = True
   \<and> severity (new_AppError (ex_opts VALIDATION_FAILED)) = LOW
   \<and> recoverable (new_AppError (ex_opts VALIDATION_FAILED)) = True"
  using C9_default_severity_and_recoverable [of "ex_opts DB_PERMISSION_DENIED"]
        C9_default_severity_and_recoverable [of "ex_opts AUTH_SESSION_EXPIRED"]
        C9_default_severity_and_recoverable [of "ex_opts NETWORK_TIMEOUT"]
        C9_default_severity_and_recoverable [of "ex_opts VALIDATION_FAILED"]
  by (simp add: ex_opts_def startsWith_def)

section \<open>Properties of the status workflow\<close>

lemma requestTransition_eq:
  "requestTransition a b = (if b \<in> set (STATUS_TRANSITIONS a) then [b] else [])"
  by (cases a; cases b)
     (simp_all add: requestTransition_def initialDialog_def hasTransitions_def
        availableTransitions_def handleStatusClick_def handleConfirm_def)

lemma dropdown_run_allowed:
  "(case targetStatus d of None \<Rightarrow> True | Some t \<Rightarrow> t \<in> set (STATUS_TRANSITIONS a))
   \<Longrightarrow> set (dropdown_run a d es) \<subseteq> set (STATUS_TRANSITIONS a)"
proof (induction es arbitrary: d)
  case Nil
  then show ?case by simp
next
  case (Cons e es)
  show ?case
  proof (cases e)
    case (ItemClick s)
    then show ?thesis using Cons.prems Cons.IH[of "handleStatusClick s"] Cons.IH[of d]
      by (auto simp add: handleStatusClick_def availableTransitions_def)
  next
    case ConfirmClick
    then show ?thesis using Cons.prems Cons.IH[of d]
      by (auto simp add: handleConfirm_def split: option.splits)
  next
    case (OpenChange b)
    then show ?thesis using Cons.prems Cons.IH[of "d\<lparr>dlg_open := b\<rparr>"] Cons.IH[of d]
      by auto
  qed
qed

text \<open>
  Claim C3. The transition table is pending to approved or rejected, approved to
  fulfilled or rejected, rejected to pending, fulfilled to nothing. Requesting the
  transition from \<open>a\<close> to \<open>b\<close> through the dropdown hands the status change \<open>b\<close> to the
  mutation hook exactly when \<open>b\<close> is in the table's row for \<open>a\<close>, and hands over nothing
  otherwise, so that no call to the store can follow; whatever the user does with the
  dropdown, only changes allowed by the table are handed over. From fulfilled to pending
  nothing is handed over; from rejected to pending the change is.
\<close>

theorem C3_transition_succeeds_iff_allowed:
  "(requestTransition a b = [b] \<longleftrightarrow> b \<in> set (STATUS_TRANSITIONS a))
   \<and> (requestTransition a b = [] \<longleftrightarrow> b \<notin> set (STATUS_TRANSITIONS a))
   \<and> set (dropdown_run a initialDialog es) \<subseteq> set (STATUS_TRANSITIONS a)
   \<and> set (STATUS_TRANSITIONS pending) = {approved, rejected}
   \<and> set (STATUS_TRANSITIONS approved) = {fulfilled, rejected}
   \<and> set (STATUS_TRANSITIONS rejected) = {pending}
   \<and> set (STATUS_TRANSITIONS fulfilled) = {}
   \<and> requestTransition fulfilled pending = []
   \<and> requestTransition rejected pending = [pending]"
proof -
  have "set (dropdown_run a initialDialog es) \<subseteq> set (STATUS_TRANSITIONS a)"
    by (rule dropdown_run_allowed) (simp add: initialDialog_def)
  then show ?thesis
    by (simp add: requestTransition_eq)
qed

section \<open>Properties of the list fetch\<close>


lemma ceilOfQuotient_bounds:
  assumes "0 < d"
  shows "(ceilOfQuotient n d - 1) * d < n \<and> n \<le> ceilOfQuotient n d * d"
proof -
  let ?q = "rat_of_int n / rat_of_int d"
  have d: "0 < rat_of_int d" using assms by simp
  have "of_int (ceilOfQuotient n d) - 1 < ?q"
    unfolding ceilOfQuotient_def by linarith
  then have "(of_int (ceilOfQuotient n d) - 1) * rat_of_int d < rat_of_int n"
    using d by (simp add: pos_less_divide_eq)
  then have "rat_of_int ((ceilOfQuotient n d - 1) * d) < rat_of_int n"
    by simp
  then have lo: "(ceilOfQuotient n d - 1) * d < n"
    by (simp only: of_int_less_iff)
  have "?q \<le> of_int (ceilOfQuotient n d)"
    unfolding ceilOfQuotient_def by linarith
  then have "rat_of_int n \<le> of_int (ceilOfQuotient n d) * rat_of_int d"
    using d by (simp add: pos_divide_le_eq)
  then have "rat_of_int n \<le> rat_of_int (ceilOfQuotient n d * d)"
    by simp
  then have hi: "n \<le> ceilOfQuotient n d * d"
    by (simp only: of_int_le_iff)
  from lo hi show ?thesis ..
qed















section \<open>Properties of the connectivity check\<close>

lemma online_calls_store:
  "snd (fetchMaterialRequest True remote rid) \<noteq> []
   \<and> snd (createMaterialRequest True remote row) = [CallInsert row]
   \<and> snd (deleteMaterialRequest True remote rid) = [CallDelete rid]"
  by (simp add: fetchMaterialRequest_def createMaterialRequest_def deleteMaterialRequest_def
        split: sum.splits option.splits)

text \<open>
  Claim C8. When \<open>navigator.onLine\<close> is false, each of the six operations (list fetch,
  single fetch, insert, update, status update, delete) throws an \<open>AppError\<close> of code
  \<open>NETWORK_OFFLINE\<close> and has made no call to the store.
\<close>

theorem C8_offline_fails_fast:
  "(\<exists>e. fetchMaterialRequests False remote f p so = (Inl (AppErr e), [])
         \<and> code e = NETWORK_OFFLINE)
   \<and> (\<exists>e. fetchMaterialRequest False remote rid = (Inl (AppErr e), [])
         \<and> code e = NETWORK_OFFLINE)
   \<and> (\<exists>e. createMaterialRequest False remote row = (Inl (AppErr e), [])
         \<and> code e = NETWORK_OFFLINE)
   \<and> (\<exists>e. updateMaterialRequest False remote now (rid, patch) = (Inl (AppErr e), [])
         \<and> code e = NETWORK_OFFLINE)
   \<and> (\<exists>e. updateStatus False remote now (rid, st) = (Inl (AppErr e), [])
         \<and> code e = NETWORK_OFFLINE)
   \<and> (\<exists>e. deleteMaterialRequest False remote rid = (Inl (AppErr e), [])
         \<and> code e = NETWORK_OFFLINE)"
  by (simp add: fetchMaterialRequests_def fetchMaterialRequest_def createMaterialRequest_def
        updateMaterialRequest_def updateStatus_def deleteMaterialRequest_def
        offlineError_def new_AppError_def)

section \<open>Properties of the retry policy\<close>







lemma queryClient_retry_default:
  "queryClient_retry n t
     = (thrownCode t \<notin> {Some AUTH_SESSION_EXPIRED, Some DB_PERMISSION_DENIED,
                          Some AUTH_UNAUTHORIZED, Some DB_NOT_FOUND} \<and> n < 2)"
  by (cases t) (auto simp add: thrownCode_def queryClient_retry_def)





section \<open>Properties of the query cache and the mutation hooks\<close>

lemma setQueryData_None [simp]: "setQueryData c k None = c"
  by (simp add: setQueryData_def)

lemma map_of_entry_update:
  "map_of (map (\<lambda>(k', q). if k' = k then (k', f q) else (k', q)) c) k'
     = (if k' = k then map_option f (map_of c k') else map_of c k')"
  by (induction c) auto

lemma map_of_in_keys: "k \<in> fst ` set c \<Longrightarrow> \<exists>q. map_of c k = Some q"
  by (induction c) auto

lemma getQueryData_setQueryData:
  "getQueryData (setQueryData c k (Some v)) k' = (if k' = k then Some v else getQueryData c k')"
proof (cases "k \<in> fst ` set c")
  case True
  then obtain q where "map_of c k = Some q" using map_of_in_keys by fastforce
  then show ?thesis using True
    by (simp add: getQueryData_def setQueryData_def map_of_entry_update)
next
  case False
  then have "map_of c k = None" by (simp add: map_of_eq_None_iff)
  then show ?thesis using False
    by (auto simp add: getQueryData_def setQueryData_def map_add_def split: option.splits)
qed

lemma getQueryData_keys: "getQueryData c k \<noteq> None \<Longrightarrow> k \<in> fst ` set c"
  by (auto simp add: getQueryData_def split: option.splits dest: map_of_SomeD intro: rev_image_eqI)

lemma keys_entry_update:
  "map fst (map (\<lambda>(k', q). if k' = k then (k', f q) else (k', q)) c) = map fst c"
  by (induction c) auto

lemma keys_setQueryData:
  "k \<in> fst ` set c \<Longrightarrow> map fst (setQueryData c k d) = map fst c"
  by (cases d) (auto simp add: setQueryData_def split: prod.splits)

lemma keys_setQueryData_mono: "set (map fst c) \<subseteq> set (map fst (setQueryData c k d))"
proof (cases "k \<in> fst ` set c")
  case True
  then show ?thesis by (simp add: keys_setQueryData)
next
  case False
  then show ?thesis by (cases d) (auto simp add: setQueryData_def)
qed

lemma cacheData_by_keys:
  "distinct (map fst c) \<Longrightarrow> cacheData c = map (\<lambda>k. (k, getQueryData c k)) (map fst c)"
proof (induction c)
  case Nil
  then show ?case by (simp add: cacheData_def)
next
  case (Cons a c)
  obtain k q where a: "a = (k, q)" by (cases a)
  have "\<forall>k' \<in> set (map fst c). getQueryData (a # c) k' = getQueryData c k'"
    using Cons.prems a by (auto simp add: getQueryData_def)
  then have "map (\<lambda>k. (k, getQueryData (a # c) k)) (map fst c)
             = map (\<lambda>k. (k, getQueryData c k)) (map fst c)"
    by (intro map_cong) auto
  then show ?case using Cons a
    by (simp add: cacheData_def getQueryData_def)
qed

lemma cacheData_eqI:
  assumes "distinct (map fst c)" and "map fst c' = map fst c"
      and "\<And>k. k \<in> set (map fst c) \<Longrightarrow> getQueryData c' k = getQueryData c k"
  shows "cacheData c' = cacheData c"
proof -
  have "distinct (map fst c')" using assms by simp
  then have "cacheData c' = map (\<lambda>k. (k, getQueryData c' k)) (map fst c')"
    by (rule cacheData_by_keys)
  also have "\<dots> = map (\<lambda>k. (k, getQueryData c' k)) (map fst c)"
    by (simp only: assms(2))
  also have "\<dots> = map (\<lambda>k. (k, getQueryData c k)) (map fst c)"
    by (rule map_cong [OF refl]) (simp add: assms(3))
  also have "\<dots> = cacheData c"
    using assms(1) by (simp add: cacheData_by_keys)
  finally show ?thesis .
qed

lemma getQueryData_invalidateQueries [simp]:
  "getQueryData (invalidateQueries c fk) k = getQueryData c k"
proof -
  have "map_of (invalidateQueries c fk) k
        = (if matchesKey fk k then map_option (\<lambda>q. q\<lparr> isInvalidated := True \<rparr>) (map_of c k)
           else map_of c k)"
    unfolding invalidateQueries_def by (induction c) auto
  then show ?thesis
    by (auto simp add: getQueryData_def split: option.splits)
qed

lemma keys_invalidateQueries [simp]: "map fst (invalidateQueries c fk) = map fst c"
  by (auto simp add: invalidateQueries_def split_def)

lemma cacheData_invalidateQueries [simp]: "cacheData (invalidateQueries c fk) = cacheData c"
  by (auto simp add: invalidateQueries_def cacheData_def split_def)

lemma invalidateQueries_marks:
  "(k, q) \<in> set (invalidateQueries c fk) \<Longrightarrow> matchesKey fk k \<Longrightarrow> isInvalidated q"
  by (auto simp add: invalidateQueries_def split: if_splits)

lemma invalidateQueries_keeps_marks:
  "(k, q) \<in> set (invalidateQueries c fk) \<Longrightarrow>
     \<exists>q0. (k, q0) \<in> set c \<and> (isInvalidated q0 \<longrightarrow> isInvalidated q)"
  by (auto simp add: invalidateQueries_def split: if_splits)


lemma fold_update_lookup:
  assumes "distinct (map fst qs)"
  shows "getQueryData (fold (\<lambda>(k, d) c'. setQueryData c' k (u (getQueryData c' k))) qs c) k'
    = (if k' \<in> fst ` set qs
       then (case u (getQueryData c k') of None \<Rightarrow> getQueryData c k' | Some v \<Rightarrow> Some v)
       else getQueryData c k')"
  using assms
proof (induction qs arbitrary: c)
  case Nil
  then show ?case by simp
next
  case (Cons a qs)
  obtain k d where a: "a = (k, d)" by (cases a)
  let ?c2 = "setQueryData c k (u (getQueryData c k))"
  have k: "k \<notin> fst ` set qs" and dist: "distinct (map fst qs)"
    using Cons.prems a by auto
  have look: "\<And>x. getQueryData ?c2 x
      = (if x = k then (case u (getQueryData c k) of None \<Rightarrow> getQueryData c k | Some v \<Rightarrow> Some v)
         else getQueryData c x)"
    by (cases "u (getQueryData c k)") (simp_all add: getQueryData_setQueryData)
  have "getQueryData (fold (\<lambda>(k, d) c'. setQueryData c' k (u (getQueryData c' k))) (a # qs) c) k'
        = getQueryData (fold (\<lambda>(k, d) c'. setQueryData c' k (u (getQueryData c' k))) qs ?c2) k'"
    using a by simp
  also have "\<dots> = (if k' \<in> fst ` set qs
       then (case u (getQueryData ?c2 k') of None \<Rightarrow> getQueryData ?c2 k' | Some v \<Rightarrow> Some v)
       else getQueryData ?c2 k')"
    by (rule Cons.IH [OF dist])
  also have "\<dots> = (if k' \<in> fst ` set (a # qs)
       then (case u (getQueryData c k') of None \<Rightarrow> getQueryData c k' | Some v \<Rightarrow> Some v)
       else getQueryData c k')"
  proof (cases "k' = k")
    case True
    show ?thesis unfolding True using k a by (auto simp add: look split: option.splits)
  next
    case False
    then show ?thesis using a by (auto simp add: look split: option.splits)
  qed
  finally show ?case .
qed

lemma fold_set_keys:
  "fst ` set qs \<subseteq> fst ` set c
   \<Longrightarrow> map fst (fold (\<lambda>(k, d) c'. setQueryData c' k (g k d c')) qs c) = map fst c"
proof (induction qs arbitrary: c)
  case Nil
  then show ?case by simp
next
  case (Cons a qs)
  obtain k d where a: "a = (k, d)" by (cases a)
  have kin: "k \<in> fst ` set c" using Cons.prems a by auto
  then have keys: "map fst (setQueryData c k (g k d c)) = map fst c"
    by (rule keys_setQueryData)
  then have "fst ` set (setQueryData c k (g k d c)) = fst ` set c"
    by (metis set_map)
  then have "fst ` set qs \<subseteq> fst ` set (setQueryData c k (g k d c))"
    using Cons.prems by auto
  from Cons.IH [OF this] keys a show ?case by simp
qed

lemma fold_restore_lookup:
  assumes "distinct (map fst prev)"
  shows "getQueryData (fold (\<lambda>(k, d) c'. setQueryData c' k d) prev c) k'
    = (case map_of prev k' of Some (Some v) \<Rightarrow> Some v | _ \<Rightarrow> getQueryData c k')"
  using assms
proof (induction prev arbitrary: c)
  case Nil
  then show ?case by simp
next
  case (Cons a prev)
  obtain k d where a: "a = (k, d)" by (cases a)
  have k: "k \<notin> fst ` set prev" and dist: "distinct (map fst prev)"
    using Cons.prems a by auto
  then have none: "map_of prev k = None" by (simp add: map_of_eq_None_iff)
  show ?case
    using Cons.IH [OF dist, of "setQueryData c k d"] a none
    by (cases d) (auto simp add: getQueryData_setQueryData split: option.splits)
qed

lemma keys_findAll:
  "distinct (map fst c) \<Longrightarrow> distinct (map fst (findAll c fk))"
  "fst ` set (findAll c fk) = {k \<in> fst ` set c. matchesKey fk k}"
  by (auto simp add: findAll_def distinct_map_filter intro: rev_image_eqI)

lemma keys_getQueriesData:
  "map fst (getQueriesData c fk) = map fst (findAll c fk)"
  by (simp add: getQueriesData_def split_def)

lemma getQueriesData_lookup:
  assumes "distinct (map fst c)"
  shows "map_of (getQueriesData c fk) k
         = (if k \<in> fst ` set c \<and> matchesKey fk k then Some (getQueryData c k) else None)"
  using assms
proof (induction c)
  case Nil
  then show ?case by (simp add: getQueriesData_def findAll_def)
next
  case (Cons a c)
  obtain k0 q0 where a: "a = (k0, q0)" by (cases a)
  have ih: "map_of (getQueriesData c fk) k
         = (if k \<in> fst ` set c \<and> matchesKey fk k then Some (getQueryData c k) else None)"
    using Cons by simp
  have notin: "k0 \<notin> fst ` set c" using Cons.prems a by auto
  have step: "getQueriesData ((k0, q0) # c) fk
     = (if matchesKey fk k0 then [(k0, entry_data q0)] else []) @ getQueriesData c fk"
    by (simp add: getQueriesData_def findAll_def)
  have look: "getQueryData ((k0, q0) # c) k = (if k = k0 then entry_data q0 else getQueryData c k)"
    by (simp add: getQueryData_def)
  show ?case
    unfolding a step look using notin
    by (auto simp add: ih)
qed

lemma statusUpdater_None [simp]: "statusUpdater rid st None = None"
  by (simp add: statusUpdater_def)

lemma statusUpdater_Some: "\<exists>v'. statusUpdater rid st (Some v) = Some v'"
  by (cases v) (simp_all add: statusUpdater_def)

lemma useUpdateStatus_onMutate_eq:
  "useUpdateStatus_onMutate (rid, st) c
     = (fold (\<lambda>(queryKey, d) c'.
                setQueryData c' queryKey (statusUpdater rid st (getQueryData c' queryKey)))
          (getQueriesData c QUERY_KEYS_materialRequests) c,
        Inr (getQueriesData c QUERY_KEYS_materialRequests))"
  by (simp add: useUpdateStatus_onMutate_def cancelQueries_def Let_def)

lemma status_onMutate_lookup:
  assumes "distinct (map fst c)"
  shows "getQueryData (fst (useUpdateStatus_onMutate (rid, st) c)) k
     = (if matchesKey QUERY_KEYS_materialRequests k
        then statusUpdater rid st (getQueryData c k) else getQueryData c k)"
proof -
  have d: "distinct (map fst (getQueriesData c QUERY_KEYS_materialRequests))"
    using assms by (simp add: keys_getQueriesData keys_findAll)
  have keys: "fst ` set (getQueriesData c QUERY_KEYS_materialRequests)
              = {k \<in> fst ` set c. matchesKey QUERY_KEYS_materialRequests k}"
    using keys_findAll(2) [of c QUERY_KEYS_materialRequests]
    by (metis keys_getQueriesData set_map)
  show ?thesis
  proof (cases "getQueryData c k")
    case None
    then show ?thesis
      by (simp add: useUpdateStatus_onMutate_eq fold_update_lookup [OF d])
  next
    case (Some v)
    then have "k \<in> fst ` set c" using getQueryData_keys by fastforce
    moreover obtain v' where "statusUpdater rid st (Some v) = Some v'"
      using statusUpdater_Some by blast
    ultimately show ?thesis using Some
      by (simp add: useUpdateStatus_onMutate_eq fold_update_lookup [OF d] keys)
  qed
qed

lemma status_onMutate_keys:
  "map fst (fst (useUpdateStatus_onMutate (rid, st) c)) = map fst c"
proof -
  have "fst ` set (getQueriesData c QUERY_KEYS_materialRequests) \<subseteq> fst ` set c"
    using keys_findAll(2) [of c QUERY_KEYS_materialRequests]
    by (metis (no_types, lifting) keys_getQueriesData mem_Collect_eq set_map subsetI)
  from fold_set_keys [OF this] show ?thesis
    by (simp add: useUpdateStatus_onMutate_eq)
qed


lemma keys_image: "map fst c' = map fst c \<Longrightarrow> fst ` set c' = fst ` set c"
  by (metis set_map)

lemma status_rollback_data:
  assumes "distinct (map fst c)"
  shows "cacheData (fold (\<lambda>(queryKey, d) c'. setQueryData c' queryKey d)
                      (getQueriesData c QUERY_KEYS_materialRequests)
                      (fst (useUpdateStatus_onMutate (rid, st) c)))
         = cacheData c"
proof (rule cacheData_eqI [OF assms])
  let ?prev = "getQueriesData c QUERY_KEYS_materialRequests"
  let ?c1 = "fst (useUpdateStatus_onMutate (rid, st) c)"
  have k1: "map fst ?c1 = map fst c" by (rule status_onMutate_keys)
  have sub: "fst ` set ?prev \<subseteq> fst ` set ?c1"
    using keys_findAll(2) [of c QUERY_KEYS_materialRequests] keys_image [OF k1]
          keys_image [OF keys_getQueriesData [of c QUERY_KEYS_materialRequests]]
    by auto
  show "map fst (fold (\<lambda>(queryKey, d) c'. setQueryData c' queryKey d) ?prev ?c1) = map fst c"
    using fold_set_keys [OF sub, of "\<lambda>k d c'. d"] k1 by simp
  fix k
  assume "k \<in> set (map fst c)"
  then have kin: "k \<in> fst ` set c" by simp
  have d: "distinct (map fst ?prev)"
    using assms by (simp add: keys_getQueriesData keys_findAll)
  show "getQueryData (fold (\<lambda>(queryKey, d) c'. setQueryData c' queryKey d) ?prev ?c1) k
        = getQueryData c k"
  proof (cases "matchesKey QUERY_KEYS_materialRequests k")
    case True
    then show ?thesis
      using kin
      by (cases "getQueryData c k")
         (simp_all add: fold_restore_lookup [OF d] getQueriesData_lookup [OF assms]
            status_onMutate_lookup [OF assms])
  next
    case False
    then show ?thesis
      by (simp add: fold_restore_lookup [OF d] getQueriesData_lookup [OF assms]
            status_onMutate_lookup [OF assms])
  qed
qed

lemma cache_surfaceError [simp]: "cache (surfaceError options e w) = cache w"
  by (simp add: surfaceError_def)

lemma status_failure:
  assumes "distinct (map fst (cache w))"
      and "fst (updateStatus onLine remote now (rid, st)) = Inl t"
  shows "\<exists>c'. cacheData c' = cacheData (cache w)
      \<and> cacheData (cache (fst (useUpdateStatus options onLine remote now (rid, st) w)))
          = cacheData c'
      \<and> surfaced (fst (useUpdateStatus options onLine remote now (rid, st) w))
          = surfaced w
            @ (if showErrorToast options
               then [(ErrorToast (toAppError DB_UPDATE_FAILED t), c')] else [])
            @ (if onErrorGiven options
               then [(OnErrorCallback (toAppError DB_UPDATE_FAILED t), c')] else [])
      \<and> snd (useUpdateStatus options onLine remote now (rid, st) w) = Inl t"
proof -
  let ?c' = "fold (\<lambda>(queryKey, d) c'. setQueryData c' queryKey d)
               (getQueriesData (cache w) QUERY_KEYS_materialRequests)
               (fst (useUpdateStatus_onMutate (rid, st) (cache w)))"
  obtain calls where m: "updateStatus onLine remote now (rid, st) = (Inl t, calls)"
    using assms(2) by (cases "updateStatus onLine remote now (rid, st)") auto
  have "cacheData ?c' = cacheData (cache w)"
    by (rule status_rollback_data [OF assms(1)])
  moreover have "cacheData (cache (fst (useUpdateStatus options onLine remote now (rid, st) w)))
          = cacheData ?c'"
    by (simp add: useUpdateStatus_def executeMutation_def useUpdateStatus_onMutate_eq m
          useUpdateStatus_onError_def useUpdateStatus_onSettled_def Let_def)
  moreover have "surfaced (fst (useUpdateStatus options onLine remote now (rid, st) w))
          = surfaced w
            @ (if showErrorToast options
               then [(ErrorToast (toAppError DB_UPDATE_FAILED t), ?c')] else [])
            @ (if onErrorGiven options
               then [(OnErrorCallback (toAppError DB_UPDATE_FAILED t), ?c')] else [])"
    by (simp add: useUpdateStatus_def executeMutation_def useUpdateStatus_onMutate_eq m
          useUpdateStatus_onError_def useUpdateStatus_onSettled_def Let_def surfaceError_def)
  moreover have "snd (useUpdateStatus options onLine remote now (rid, st) w) = Inl t"
    by (simp add: useUpdateStatus_def executeMutation_def useUpdateStatus_onMutate_eq m)
  ultimately show ?thesis by blast
qed


lemma setQueryDataEach_lookup:
  assumes "distinct ks" and "setQueryDataEach ks u c = (c1, None)"
  shows "getQueryData c1 k'
    = (if k' \<in> set ks
       then (case u (getQueryData c k') of Inr (Some v) \<Rightarrow> Some v | _ \<Rightarrow> getQueryData c k')
       else getQueryData c k')"
  using assms
proof (induction ks arbitrary: c)
  case Nil
  then show ?case by simp
next
  case (Cons k ks)
  from Cons.prems(2) obtain d where d: "u (getQueryData c k) = Inr d"
    and rest: "setQueryDataEach ks u (setQueryData c k d) = (c1, None)"
    by (cases "u (getQueryData c k)") auto
  have k: "k \<notin> set ks" and dist: "distinct ks" using Cons.prems(1) by auto
  have look: "\<And>x. getQueryData (setQueryData c k d) x
      = (if x = k then (case d of None \<Rightarrow> getQueryData c k | Some v \<Rightarrow> Some v)
         else getQueryData c x)"
    by (cases d) (simp_all add: getQueryData_setQueryData)
  have ih: "getQueryData c1 k'
    = (if k' \<in> set ks
       then (case u (getQueryData (setQueryData c k d) k') of
               Inr (Some v) \<Rightarrow> Some v | _ \<Rightarrow> getQueryData (setQueryData c k d) k')
       else getQueryData (setQueryData c k d) k')"
    by (rule Cons.IH [OF dist rest])
  show ?case
  proof (cases "k' = k")
    case True
    have "getQueryData c1 k' = getQueryData (setQueryData c k d) k'"
      using ih True k by simp
    then show ?thesis using True d
      by (auto simp add: look split: option.splits sum.splits)
  next
    case False
    have "getQueryData (setQueryData c k d) k' = getQueryData c k'"
      using False by (simp add: look)
    then show ?thesis using ih False
      by (auto split: option.splits sum.splits)
  qed
qed

lemma setQueryDataEach_no_throw:
  assumes "distinct ks" and "setQueryDataEach ks u c = (c1, None)"
  shows "\<forall>k \<in> set ks. \<exists>d. u (getQueryData c k) = Inr d"
  using assms
proof (induction ks arbitrary: c)
  case Nil
  then show ?case by simp
next
  case (Cons k ks)
  from Cons.prems(2) obtain d where d: "u (getQueryData c k) = Inr d"
    and rest: "setQueryDataEach ks u (setQueryData c k d) = (c1, None)"
    by (cases "u (getQueryData c k)") auto
  have k: "k \<notin> set ks" and dist: "distinct ks" using Cons.prems(1) by auto
  have look: "\<And>x. x \<noteq> k \<Longrightarrow> getQueryData (setQueryData c k d) x = getQueryData c x"
    by (cases d) (simp_all add: getQueryData_setQueryData)
  have "\<forall>x \<in> set ks. \<exists>d'. u (getQueryData (setQueryData c k d) x) = Inr d'"
    by (rule Cons.IH [OF dist rest])
  then have "\<forall>x \<in> set ks. \<exists>d'. u (getQueryData c x) = Inr d'"
    using k look by metis
  then show ?case using d by simp
qed

lemma setQueryDataEach_keys:
  "set ks \<subseteq> fst ` set c \<Longrightarrow> map fst (fst (setQueryDataEach ks u c)) = map fst c"
proof (induction ks arbitrary: c)
  case Nil
  then show ?case by simp
next
  case (Cons k ks)
  show ?case
  proof (cases "u (getQueryData c k)")
    case (Inl t)
    then show ?thesis by simp
  next
    case (Inr d)
    have kin: "k \<in> fst ` set c" using Cons.prems by auto
    then have keys: "map fst (setQueryData c k d) = map fst c"
      by (rule keys_setQueryData)
    then have "set ks \<subseteq> fst ` set (setQueryData c k d)"
      using Cons.prems keys_image [OF keys] by auto
    from Cons.IH [OF this] keys Inr show ?thesis by simp
  qed
qed

lemma setQueryDataEach_keys_mono:
  "set (map fst c) \<subseteq> set (map fst (fst (setQueryDataEach ks u c)))"
proof (induction ks arbitrary: c)
  case Nil
  then show ?case by simp
next
  case (Cons k ks)
  show ?case
  proof (cases "u (getQueryData c k)")
    case (Inl t)
    then show ?thesis by simp
  next
    case (Inr d)
    have "set (map fst c) \<subseteq> set (map fst (setQueryData c k d))"
      by (rule keys_setQueryData_mono)
    also have "\<dots> \<subseteq> set (map fst (fst (setQueryDataEach ks u (setQueryData c k d))))"
      by (rule Cons.IH)
    finally show ?thesis using Inr by simp
  qed
qed

lemma typed_lookup:
  assumes "typedCache c" and "getQueryData c k = Some v"
  shows "if k = QUERY_KEYS_materialRequests then isArray v
         else (matchesKey QUERY_KEYS_materialRequests k \<longrightarrow> \<not> isArray v)"
proof -
  from assms(2) obtain q where q: "map_of c k = Some q" "entry_data q = Some v"
    by (auto simp add: getQueryData_def split: option.splits)
  then have "(k, q) \<in> set c" by (simp add: map_of_SomeD)
  then have "typedEntry (k, q)" using assms(1) by (auto simp add: typedCache_def list_all_iff)
  then show ?thesis using q(2) by (simp add: typedEntry_def split: if_splits)
qed

lemma base_matches [simp]: "matchesKey QUERY_KEYS_materialRequests QUERY_KEYS_materialRequests"
  by (simp add: matchesKey_def startsWith_def)

lemma detail_matches [simp]:
  "matchesKey QUERY_KEYS_materialRequests (QUERY_KEYS_materialRequest rid)"
  by (simp add: matchesKey_def startsWith_def QUERY_KEYS_materialRequests_def
        QUERY_KEYS_materialRequest_def)

lemma list_matches [simp]:
  "matchesKey QUERY_KEYS_materialRequests (QUERY_KEYS_materialRequestsList f p so)"
  by (simp add: matchesKey_def startsWith_def QUERY_KEYS_materialRequests_def
        QUERY_KEYS_materialRequestsList_def)

lemma detail_not_base [simp]:
  "QUERY_KEYS_materialRequest rid \<noteq> QUERY_KEYS_materialRequests"
  "QUERY_KEYS_materialRequests \<noteq> QUERY_KEYS_materialRequest rid"
  by (simp_all add: QUERY_KEYS_materialRequests_def QUERY_KEYS_materialRequest_def)


lemma setQueryDataEach_total:
  assumes "\<And>x. \<exists>d. u x = Inr d"
  shows "snd (setQueryDataEach ks u c) = None"
proof (induction ks arbitrary: c)
  case Nil
  then show ?case by simp
next
  case (Cons k ks)
  obtain d where "u (getQueryData c k) = Inr d" using assms by blast
  then show ?case using Cons.IH by simp
qed

lemma updateUpdater_Inr:
  "\<exists>d. updateUpdater rid dt x = Inr d"
  by (cases x; simp add: updateUpdater_def split: cached.splits)

lemma updateUpdater_not_array:
  "updateUpdater rid dt None = Inr None"
  "\<not> isArray v \<Longrightarrow> updateUpdater rid dt (Some v) = Inr (Some v)"
  by (cases v; simp add: updateUpdater_def isArray_def)+

lemma update_bulk:
  fixes c :: query_cache and rid :: string and dt :: MaterialRequestUpdate
  assumes dist: "distinct (map fst c)" and typed: "typedCache c"
  defines "c1 \<equiv> fst (setQueriesData c QUERY_KEYS_materialRequests (updateUpdater rid dt))"
  shows "setQueriesData c QUERY_KEYS_materialRequests (updateUpdater rid dt) = (c1, None)"
    and "map fst c1 = map fst c"
    and "\<And>k. k \<noteq> QUERY_KEYS_materialRequests \<Longrightarrow> getQueryData c1 k = getQueryData c k"
    and "getQueryData c QUERY_KEYS_materialRequests = None
         \<Longrightarrow> getQueryData c1 QUERY_KEYS_materialRequests = None"
proof -
  let ?ks = "map fst (findAll c QUERY_KEYS_materialRequests)"
  have "snd (setQueryDataEach ?ks (updateUpdater rid dt) c) = None"
    by (rule setQueryDataEach_total) (rule updateUpdater_Inr)
  then show run: "setQueriesData c QUERY_KEYS_materialRequests (updateUpdater rid dt) = (c1, None)"
    unfolding c1_def setQueriesData_def by (simp add: prod_eq_iff)
  have dks: "distinct ?ks" using dist by (rule keys_findAll(1))
  have sub: "set ?ks \<subseteq> fst ` set c"
    using keys_findAll(2) [of c QUERY_KEYS_materialRequests] by auto
  show "map fst c1 = map fst c"
    unfolding c1_def setQueriesData_def by (rule setQueryDataEach_keys [OF sub])
  have look: "\<And>k. getQueryData c1 k
    = (if k \<in> set ?ks
       then (case updateUpdater rid dt (getQueryData c k) of
               Inr (Some v) \<Rightarrow> Some v | _ \<Rightarrow> getQueryData c k)
       else getQueryData c k)"
    using run unfolding setQueriesData_def by (rule setQueryDataEach_lookup [OF dks])
  show "getQueryData c1 k = getQueryData c k" if ne: "k \<noteq> QUERY_KEYS_materialRequests" for k
  proof (cases "getQueryData c k")
    case None
    then show ?thesis by (simp add: look updateUpdater_not_array)
  next
    case (Some v)
    show ?thesis
    proof (cases "matchesKey QUERY_KEYS_materialRequests k")
      case True
      then have "\<not> isArray v" using typed_lookup [OF typed Some] ne by simp
      then show ?thesis using Some by (simp add: look updateUpdater_not_array)
    next
      case False
      then have "k \<notin> set ?ks"
        using keys_findAll(2) [of c QUERY_KEYS_materialRequests] by auto
      then show ?thesis by (simp add: look)
    qed
  qed
  show "getQueryData c1 QUERY_KEYS_materialRequests = None"
    if "getQueryData c QUERY_KEYS_materialRequests = None"
    using that by (simp add: look updateUpdater_not_array)
qed

lemma update_rollback_data:
  assumes dist: "distinct (map fst c)" and typed: "typedCache c"
      and m: "useUpdateMaterialRequest_onMutate (rid, dt) c = (c2, r)"
  shows "\<exists>previousRequests previousRequest.
           r = Inr (previousRequests, previousRequest)
         \<and> cacheData
             (case previousRequest of
                Some v \<Rightarrow>
                  setQueryData
                    (case previousRequests of
                       Some a \<Rightarrow> setQueryData c2 QUERY_KEYS_materialRequests (Some a)
                     | None \<Rightarrow> c2)
                    (QUERY_KEYS_materialRequest rid) (Some v)
              | None \<Rightarrow>
                  (case previousRequests of
                     Some a \<Rightarrow> setQueryData c2 QUERY_KEYS_materialRequests (Some a)
                   | None \<Rightarrow> c2))
           = cacheData c"
proof -
  define c1 where "c1 = fst (setQueriesData c QUERY_KEYS_materialRequests (updateUpdater rid dt))"
  note b = update_bulk [OF dist typed, where rid = rid and dt = dt, folded c1_def]
  define pr where "pr = getQueryData c (QUERY_KEYS_materialRequest rid)"
  define prs where "prs = getQueryData c QUERY_KEYS_materialRequests"
  have pr1: "getQueryData c1 (QUERY_KEYS_materialRequest rid) = pr"
    unfolding pr_def by (rule b(3)) simp
  have c2: "c2 = (case pr of
                    Some v \<Rightarrow> setQueryData c1 (QUERY_KEYS_materialRequest rid) (Some (spreadOver v dt))
                  | None \<Rightarrow> c1)"
    and r: "r = Inr (prs, pr)"
    using m by (simp_all add: useUpdateMaterialRequest_onMutate_def cancelQueries_def Let_def
                  b(1) pr1 prs_def)
  let ?c3 = "case prs of Some a \<Rightarrow> setQueryData c2 QUERY_KEYS_materialRequests (Some a) | None \<Rightarrow> c2"
  let ?c4 = "case pr of Some v \<Rightarrow> setQueryData ?c3 (QUERY_KEYS_materialRequest rid) (Some v)
             | None \<Rightarrow> ?c3"
  have din: "pr \<noteq> None \<Longrightarrow> QUERY_KEYS_materialRequest rid \<in> fst ` set c"
    unfolding pr_def by (rule getQueryData_keys)
  have bin: "prs \<noteq> None \<Longrightarrow> QUERY_KEYS_materialRequests \<in> fst ` set c"
    unfolding prs_def by (rule getQueryData_keys)
  have k2: "map fst c2 = map fst c"
    using din b(2) keys_image [OF b(2)]
    by (cases pr) (simp_all add: c2 keys_setQueryData)
  have k3: "map fst ?c3 = map fst c"
    using bin k2 keys_image [OF k2]
    by (cases prs) (simp_all add: keys_setQueryData)
  have k4: "map fst ?c4 = map fst c"
    using din k3 keys_image [OF k3]
    by (cases pr) (simp_all add: keys_setQueryData)
  have look: "getQueryData ?c4 k = getQueryData c k" for k
  proof (cases "k = QUERY_KEYS_materialRequest rid")
    case True
    then show ?thesis
      using pr1 b(3) [of k]
      by (cases pr; cases prs)
         (simp_all add: c2 getQueryData_setQueryData pr_def)
  next
    case nd: False
    show ?thesis
    proof (cases "k = QUERY_KEYS_materialRequests")
      case True
      then show ?thesis
        using b(4)
        by (cases pr; cases prs)
           (simp_all add: c2 getQueryData_setQueryData prs_def)
    next
      case False
      then show ?thesis
        using nd b(3) [of k]
        by (cases pr; cases prs)
           (simp_all add: c2 getQueryData_setQueryData)
    qed
  qed
  have "cacheData ?c4 = cacheData c"
    by (rule cacheData_eqI [OF dist k4]) (rule look)
  then show ?thesis using r by blast
qed


lemma update_failure:
  assumes dist: "distinct (map fst (cache w))" and typed: "typedCache (cache w)"
      and f: "fst (updateMaterialRequest onLine remote now (rid, dt)) = Inl t"
  shows "\<exists>c'. cacheData c' = cacheData (cache w)
      \<and> cacheData (cache (fst (useUpdateMaterialRequest options onLine remote now (rid, dt) w)))
          = cacheData c'
      \<and> surfaced (fst (useUpdateMaterialRequest options onLine remote now (rid, dt) w))
          = surfaced w
            @ (if showErrorToast options
               then [(ErrorToast (toAppError DB_UPDATE_FAILED t), c')] else [])
            @ (if onErrorGiven options
               then [(OnErrorCallback (toAppError DB_UPDATE_FAILED t), c')] else [])
      \<and> snd (useUpdateMaterialRequest options onLine remote now (rid, dt) w) = Inl t"
proof -
  obtain calls where m: "updateMaterialRequest onLine remote now (rid, dt) = (Inl t, calls)"
    using f by (cases "updateMaterialRequest onLine remote now (rid, dt)") auto
  obtain c2 r where om: "useUpdateMaterialRequest_onMutate (rid, dt) (cache w) = (c2, r)"
    by (cases "useUpdateMaterialRequest_onMutate (rid, dt) (cache w)")
  from update_rollback_data [OF dist typed om]
  obtain prs pr where r: "r = Inr (prs, pr)"
    and eq: "cacheData
             (case pr of
                Some v \<Rightarrow>
                  setQueryData
                    (case prs of
                       Some a \<Rightarrow> setQueryData c2 QUERY_KEYS_materialRequests (Some a)
                     | None \<Rightarrow> c2)
                    (QUERY_KEYS_materialRequest rid) (Some v)
              | None \<Rightarrow>
                  (case prs of
                     Some a \<Rightarrow> setQueryData c2 QUERY_KEYS_materialRequests (Some a)
                   | None \<Rightarrow> c2))
           = cacheData (cache w)"
    by blast
  let ?c' = "case pr of
                Some v \<Rightarrow>
                  setQueryData
                    (case prs of
                       Some a \<Rightarrow> setQueryData c2 QUERY_KEYS_materialRequests (Some a)
                     | None \<Rightarrow> c2)
                    (QUERY_KEYS_materialRequest rid) (Some v)
              | None \<Rightarrow>
                  (case prs of
                     Some a \<Rightarrow> setQueryData c2 QUERY_KEYS_materialRequests (Some a)
                   | None \<Rightarrow> c2)"
  have run: "fst (useUpdateMaterialRequest options onLine remote now (rid, dt) w)
      = useUpdateMaterialRequest_onSettled (rid, dt)
          (surfaceError options (toAppError DB_UPDATE_FAILED t)
             (w\<lparr> store_calls := store_calls w @ calls, cache := ?c' \<rparr>))"
    by (cases pr; cases prs)
       (simp_all add: useUpdateMaterialRequest_def executeMutation_def om r m
          useUpdateMaterialRequest_onError_def Let_def)
  have "cacheData (cache (fst (useUpdateMaterialRequest options onLine remote now (rid, dt) w)))
          = cacheData ?c'"
    unfolding run by (simp add: useUpdateMaterialRequest_onSettled_def)
  moreover have "surfaced (fst (useUpdateMaterialRequest options onLine remote now (rid, dt) w))
          = surfaced w
            @ (if showErrorToast options
               then [(ErrorToast (toAppError DB_UPDATE_FAILED t), ?c')] else [])
            @ (if onErrorGiven options
               then [(OnErrorCallback (toAppError DB_UPDATE_FAILED t), ?c')] else [])"
    unfolding run by (simp add: useUpdateMaterialRequest_onSettled_def surfaceError_def)
  moreover have "snd (useUpdateMaterialRequest options onLine remote now (rid, dt) w) = Inl t"
    by (simp add: useUpdateMaterialRequest_def executeMutation_def om r m)
  ultimately show ?thesis using eq by blast
qed

lemma deleteUpdater_Inr:
  "deleteUpdater rid x = Inr d \<Longrightarrow> x = None \<or> (\<exists>v. x = Some v \<and> isArray v)"
  by (auto simp add: deleteUpdater_def isArray_def split: option.splits cached.splits)

lemma deleteUpdater_None [simp]: "deleteUpdater rid None = Inr None"
  by (simp add: deleteUpdater_def)

lemma delete_rollback_data:
  assumes dist: "distinct (map fst c)" and typed: "typedCache c"
      and m: "useDeleteMaterialRequest_onMutate rid c = (c1, Inr prev)"
  shows "cacheData (case prev of
                      Some a \<Rightarrow> setQueryData c1 QUERY_KEYS_materialRequests (Some a)
                    | None \<Rightarrow> c1)
         = cacheData c"
proof -
  let ?ks = "map fst (findAll c QUERY_KEYS_materialRequests)"
  from m have run: "setQueryDataEach ?ks (deleteUpdater rid) c = (c1, None)"
    and prev: "prev = getQueryData c QUERY_KEYS_materialRequests"
    by (auto simp add: useDeleteMaterialRequest_onMutate_def cancelQueries_def Let_def
          setQueriesData_def split: prod.splits option.splits)
  have dks: "distinct ?ks" using dist by (rule keys_findAll(1))
  have sub: "set ?ks \<subseteq> fst ` set c"
    using keys_findAll(2) [of c QUERY_KEYS_materialRequests] by auto
  have k1: "map fst c1 = map fst c"
    using setQueryDataEach_keys [OF sub, of "deleteUpdater rid"] run by simp
  have look: "\<And>k. getQueryData c1 k
    = (if k \<in> set ?ks
       then (case deleteUpdater rid (getQueryData c k) of
               Inr (Some v) \<Rightarrow> Some v | _ \<Rightarrow> getQueryData c k)
       else getQueryData c k)"
    by (rule setQueryDataEach_lookup [OF dks run])
  have nothrow: "\<forall>k \<in> set ?ks. \<exists>d. deleteUpdater rid (getQueryData c k) = Inr d"
    by (rule setQueryDataEach_no_throw [OF dks run])
  have other: "getQueryData c1 k = getQueryData c k" if ne: "k \<noteq> QUERY_KEYS_materialRequests" for k
  proof (cases "k \<in> set ?ks")
    case False
    then show ?thesis by (simp add: look)
  next
    case True
    then have mk: "matchesKey QUERY_KEYS_materialRequests k"
      using keys_findAll(2) [of c QUERY_KEYS_materialRequests] by auto
    from True nothrow obtain d where d: "deleteUpdater rid (getQueryData c k) = Inr d" by blast
    have "getQueryData c k = None"
    proof (rule ccontr)
      assume "getQueryData c k \<noteq> None"
      then obtain v where v: "getQueryData c k = Some v" by auto
      then have "\<not> isArray v" using typed_lookup [OF typed v] ne mk by simp
      then show False using deleteUpdater_Inr [OF d] v by auto
    qed
    then show ?thesis using True by (simp add: look)
  qed
  have base_none: "getQueryData c1 QUERY_KEYS_materialRequests = None"
    if "getQueryData c QUERY_KEYS_materialRequests = None"
    using that by (simp add: look)
  let ?c2 = "case prev of Some a \<Rightarrow> setQueryData c1 QUERY_KEYS_materialRequests (Some a)
             | None \<Rightarrow> c1"
  have bin: "prev \<noteq> None \<Longrightarrow> QUERY_KEYS_materialRequests \<in> fst ` set c"
    unfolding prev by (rule getQueryData_keys)
  have k2: "map fst ?c2 = map fst c"
    using bin k1 keys_image [OF k1] by (cases prev) (simp_all add: keys_setQueryData)
  have "getQueryData ?c2 k = getQueryData c k" for k
  proof (cases prev)
    case None
    then have "getQueryData c QUERY_KEYS_materialRequests = None" using prev by simp
    then show ?thesis using None base_none other [of k]
      by (cases "k = QUERY_KEYS_materialRequests") simp_all
  next
    case (Some a)
    then have "getQueryData c QUERY_KEYS_materialRequests = Some a" using prev by simp
    then show ?thesis using Some other [of k]
      by (cases "k = QUERY_KEYS_materialRequests") (simp_all add: getQueryData_setQueryData)
  qed
  then show ?thesis
    by (intro cacheData_eqI [OF dist k2])
qed

lemma delete_failure:
  assumes dist: "distinct (map fst (cache w))" and typed: "typedCache (cache w)"
      and om: "snd (useDeleteMaterialRequest_onMutate rid (cache w)) = Inr prev"
      and f: "fst (deleteMaterialRequest onLine remote rid) = Inl t"
  shows "\<exists>c'. cacheData c' = cacheData (cache w)
      \<and> cacheData (cache (fst (useDeleteMaterialRequest options onLine remote rid w)))
          = cacheData c'
      \<and> surfaced (fst (useDeleteMaterialRequest options onLine remote rid w))
          = surfaced w
            @ (if showErrorToast options
               then [(ErrorToast (toAppError DB_DELETE_FAILED t), c')] else [])
            @ (if onErrorGiven options
               then [(OnErrorCallback (toAppError DB_DELETE_FAILED t), c')] else [])
      \<and> snd (useDeleteMaterialRequest options onLine remote rid w) = Inl t"
proof -
  obtain calls where m: "deleteMaterialRequest onLine remote rid = (Inl t, calls)"
    using f by (cases "deleteMaterialRequest onLine remote rid") auto
  obtain c1 where om': "useDeleteMaterialRequest_onMutate rid (cache w) = (c1, Inr prev)"
    using om by (cases "useDeleteMaterialRequest_onMutate rid (cache w)") auto
  let ?c' = "case prev of Some a \<Rightarrow> setQueryData c1 QUERY_KEYS_materialRequests (Some a)
             | None \<Rightarrow> c1"
  have eq: "cacheData ?c' = cacheData (cache w)"
    by (rule delete_rollback_data [OF dist typed om'])
  have run: "fst (useDeleteMaterialRequest options onLine remote rid w)
      = useDeleteMaterialRequest_onSettled rid
          (surfaceError options (toAppError DB_DELETE_FAILED t)
             (w\<lparr> store_calls := store_calls w @ calls, cache := ?c' \<rparr>))"
    by (cases prev)
       (simp_all add: useDeleteMaterialRequest_def executeMutation_def om' m
          useDeleteMaterialRequest_onError_def Let_def)
  have "cacheData (cache (fst (useDeleteMaterialRequest options onLine remote rid w)))
          = cacheData ?c'"
    unfolding run by (simp add: useDeleteMaterialRequest_onSettled_def)
  moreover have "surfaced (fst (useDeleteMaterialRequest options onLine remote rid w))
          = surfaced w
            @ (if showErrorToast options
               then [(ErrorToast (toAppError DB_DELETE_FAILED t), ?c')] else [])
            @ (if onErrorGiven options
               then [(OnErrorCallback (toAppError DB_DELETE_FAILED t), ?c')] else [])"
    unfolding run by (simp add: useDeleteMaterialRequest_onSettled_def surfaceError_def)
  moreover have "snd (useDeleteMaterialRequest options onLine remote rid w) = Inl t"
    by (simp add: useDeleteMaterialRequest_def executeMutation_def om' m)
  ultimately show ?thesis using eq by blast
qed


lemma rolledBackI:
  assumes "\<exists>c'. cacheData c' = cacheData (cache w)
      \<and> cacheData (cache (fst res)) = cacheData c'
      \<and> surfaced (fst res)
          = surfaced w
            @ (if showErrorToast options then [(ErrorToast (toAppError fallback t), c')] else [])
            @ (if onErrorGiven options then [(OnErrorCallback (toAppError fallback t), c')] else [])
      \<and> snd res = Inl t"
  shows "rolledBack fallback t options w res"
  using assms by (auto simp add: rolledBack_def)

text \<open>
  Claim C1. The cache holds one query per key, with the types the hooks declare. When the
  mutation function of a status change, an update or a delete fails (for the delete:
  after an \<open>onMutate\<close> that did not throw, so that the mutation function was called at
  all), the mutation ends with that error, the data of every query, snapshotted or not,
  is again what it was before the mutation, and it already was so when the classified
  error was shown in the toast and handed to the caller's callback. The witness is the
  spec's example: a cached list and a detail query showing request X as pending, and a
  status change of X to approved that the store refuses.
\<close>

theorem C1_failed_mutation_rolls_back:
  assumes "distinct (map fst (cache w))" and "typedCache (cache w)"
  shows "(fst (updateStatus onLine remote now (rid, st)) = Inl t
            \<longrightarrow> rolledBack DB_UPDATE_FAILED t options w
                  (useUpdateStatus options onLine remote now (rid, st) w))
       \<and> (fst (updateMaterialRequest onLine remote now (rid, dt)) = Inl t
            \<longrightarrow> rolledBack DB_UPDATE_FAILED t options w
                  (useUpdateMaterialRequest options onLine remote now (rid, dt) w))
       \<and> (snd (useDeleteMaterialRequest_onMutate rid (cache w)) = Inr prev
            \<and> fst (deleteMaterialRequest onLine remote rid) = Inl t
            \<longrightarrow> rolledBack DB_DELETE_FAILED t options w
                  (useDeleteMaterialRequest options onLine remote rid w))"
proof (intro conjI impI)
  assume "fst (updateStatus onLine remote now (rid, st)) = Inl t"
  from status_failure [OF assms(1) this]
  show "rolledBack DB_UPDATE_FAILED t options w
          (useUpdateStatus options onLine remote now (rid, st) w)"
    by (rule rolledBackI)
next
  assume "fst (updateMaterialRequest onLine remote now (rid, dt)) = Inl t"
  from update_failure [OF assms this]
  show "rolledBack DB_UPDATE_FAILED t options w
          (useUpdateMaterialRequest options onLine remote now (rid, dt) w)"
    by (rule rolledBackI)
next
  assume "snd (useDeleteMaterialRequest_onMutate rid (cache w)) = Inr prev
            \<and> fst (deleteMaterialRequest onLine remote rid) = Inl t"
  then have "snd (useDeleteMaterialRequest_onMutate rid (cache w)) = Inr prev"
    and "fst (deleteMaterialRequest onLine remote rid) = Inl t" by simp_all
  from delete_failure [OF assms this]
  show "rolledBack DB_DELETE_FAILED t options w
          (useDeleteMaterialRequest options onLine remote rid w)"
    by (rule rolledBackI)
qed

lemma ex_cache_wf: "distinct (map fst ex_cache)" "typedCache ex_cache"
  by (simp_all add: ex_cache_def typedCache_def typedEntry_def isArray_def matchesKey_def
        startsWith_def QUERY_KEYS_materialRequestsList_def QUERY_KEYS_materialRequest_def
        QUERY_KEYS_materialRequests_def)

lemma ex_array_cache_wf: "distinct (map fst ex_array_cache)" "typedCache ex_array_cache"
  by (simp_all add: ex_array_cache_def typedCache_def typedEntry_def isArray_def)

lemma ex_update_fails:
  "fst (updateStatus True (ex_remote [] 0) now (rid, st))
     = Inl (AppErr (parsePostgrestError ex_pg_error op_update))"
  "fst (updateMaterialRequest True (ex_remote [] 0) now (rid, dt))
     = Inl (AppErr (parsePostgrestError ex_pg_error op_update))"
  "fst (deleteMaterialRequest True (ex_remote [] 0) rid)
     = Inl (AppErr (parsePostgrestError ex_pg_error op_delete))"
  by (simp_all add: updateStatus_def updateMaterialRequest_def deleteMaterialRequest_def
        ex_remote_def)

lemma ex_delete_onMutate:
  "snd (useDeleteMaterialRequest_onMutate ''X'' ex_array_cache)
     = Inr (Some (CachedArray [ex_request ''X'' pending, ex_request ''Y'' pending]))"
  by (simp add: useDeleteMaterialRequest_onMutate_def ex_array_cache_def cancelQueries_def
        setQueriesData_def findAll_def getQueryData_def deleteUpdater_def matchesKey_def
        startsWith_def Let_def)

theorem C1_failed_mutation_rolls_back_witness:
  "rolledBack DB_UPDATE_FAILED (AppErr (parsePostgrestError ex_pg_error op_update)) ex_options
     (ex_state ex_cache)
     (useUpdateStatus ex_options True (ex_remote [] 0) ''now'' (''X'', approved)
        (ex_state ex_cache))
   \<and> cacheData ex_cache
       = [(QUERY_KEYS_materialRequestsList None None None, Some (CachedPage (ex_page pending))),
          (QUERY_KEYS_materialRequest ''X'', Some (CachedRequest (ex_request ''X'' pending)))]
   \<and> rolledBack DB_UPDATE_FAILED (AppErr (parsePostgrestError ex_pg_error op_update)) ex_options
     (ex_state ex_cache)
     (useUpdateMaterialRequest ex_options True (ex_remote [] 0) ''now'' (''X'', ex_patch)
        (ex_state ex_cache))
   \<and> rolledBack DB_DELETE_FAILED (AppErr (parsePostgrestError ex_pg_error op_delete)) ex_options
     (ex_state ex_array_cache)
     (useDeleteMaterialRequest ex_options True (ex_remote [] 0) ''X'' (ex_state ex_array_cache))"
proof -
  have wf: "distinct (map fst (cache (ex_state ex_cache)))" "typedCache (cache (ex_state ex_cache))"
    using ex_cache_wf by (simp_all add: ex_state_def)
  have wfa: "distinct (map fst (cache (ex_state ex_array_cache)))"
    "typedCache (cache (ex_state ex_array_cache))"
    using ex_array_cache_wf by (simp_all add: ex_state_def)
  have om: "snd (useDeleteMaterialRequest_onMutate ''X'' (cache (ex_state ex_array_cache)))
     = Inr (Some (CachedArray [ex_request ''X'' pending, ex_request ''Y'' pending]))"
    using ex_delete_onMutate by (simp add: ex_state_def)
  have cd: "cacheData ex_cache
       = [(QUERY_KEYS_materialRequestsList None None None, Some (CachedPage (ex_page pending))),
          (QUERY_KEYS_materialRequest ''X'', Some (CachedRequest (ex_request ''X'' pending)))]"
    by (simp add: cacheData_def ex_cache_def)
  show ?thesis
    using C1_failed_mutation_rolls_back [OF wf, of True "ex_remote [] 0" "''now''" "''X''" approved
            "AppErr (parsePostgrestError ex_pg_error op_update)" ex_options ex_patch]
          C1_failed_mutation_rolls_back [OF wfa, of True "ex_remote [] 0" "''now''" "''X''" approved
            "AppErr (parsePostgrestError ex_pg_error op_delete)" ex_options ex_patch
            "Some (CachedArray [ex_request ''X'' pending, ex_request ''Y'' pending])"]
          ex_update_fails om cd
    by simp
qed


lemma ex_keys_distinct:
  "QUERY_KEYS_materialRequestsList None None None \<noteq> QUERY_KEYS_materialRequest ''X''"
  "QUERY_KEYS_materialRequest ''X'' \<noteq> QUERY_KEYS_materialRequestsList None None None"
  by (simp_all add: QUERY_KEYS_materialRequestsList_def QUERY_KEYS_materialRequest_def)

lemma ex_cache_matches:
  "findAll ex_cache QUERY_KEYS_materialRequests = ex_cache"
  by (simp add: findAll_def ex_cache_def)

lemma ex_cache_lookup:
  "getQueryData ex_cache (QUERY_KEYS_materialRequestsList None None None)
     = Some (CachedPage (ex_page pending))"
  "getQueryData ex_cache (QUERY_KEYS_materialRequest ''X'')
     = Some (CachedRequest (ex_request ''X'' pending))"
  "getQueryData ex_cache QUERY_KEYS_materialRequests = None"
  using ex_keys_distinct
  by (simp_all add: getQueryData_def ex_cache_def QUERY_KEYS_materialRequests_def
        QUERY_KEYS_materialRequestsList_def QUERY_KEYS_materialRequest_def)

lemma ex_cache_set_same:
  "setQueryData ex_cache (QUERY_KEYS_materialRequestsList None None None)
     (Some (CachedPage (ex_page pending))) = ex_cache"
  "setQueryData ex_cache (QUERY_KEYS_materialRequest ''X'')
     (Some (CachedRequest (ex_request ''X'' pending))) = ex_cache"
  using ex_keys_distinct by (simp_all add: setQueryData_def ex_cache_def)

lemma ex_cache_data:
  "cacheData ex_cache
     = [(QUERY_KEYS_materialRequestsList None None None, Some (CachedPage (ex_page pending))),
        (QUERY_KEYS_materialRequest ''X'', Some (CachedRequest (ex_request ''X'' pending)))]"
  "getQueriesData ex_cache QUERY_KEYS_materialRequests = cacheData ex_cache"
  "map fst (findAll ex_cache QUERY_KEYS_materialRequests)
     = [QUERY_KEYS_materialRequestsList None None None, QUERY_KEYS_materialRequest ''X'']"
  unfolding getQueriesData_def ex_cache_matches
  by (simp_all add: cacheData_def ex_cache_def)

lemma ex_status_onMutate:
  "useUpdateStatus_onMutate (''X'', approved) ex_cache = (ex_cache, Inr (cacheData ex_cache))"
  unfolding useUpdateStatus_onMutate_eq ex_cache_data(2)
  unfolding ex_cache_data(1)
  by (simp add: ex_cache_lookup ex_cache_set_same statusUpdater_def)

lemma ex_status_restore:
  "fold (\<lambda>(queryKey, d) c'. setQueryData c' queryKey d) (cacheData ex_cache) ex_cache = ex_cache"
  unfolding ex_cache_data(1) by (simp add: ex_cache_set_same)

lemma ex_update_bulk:
  "setQueriesData ex_cache QUERY_KEYS_materialRequests (updateUpdater ''X'' ex_patch)
     = (ex_cache, None)"
  unfolding setQueriesData_def ex_cache_data(3)
  by (simp add: ex_cache_lookup ex_cache_set_same updateUpdater_def)

lemma ex_delete_throws:
  "useDeleteMaterialRequest_onMutate ''X'' ex_cache
     = (ex_cache, Inl (OtherError ''TypeError'' ''old?.filter is not a function''))"
  by (simp add: useDeleteMaterialRequest_onMutate_def setQueriesData_def ex_cache_data(3)
        cancelQueries_def Let_def ex_cache_lookup deleteUpdater_def)

lemma ex_invalidated:
  "invalidateQueries ex_cache QUERY_KEYS_materialRequests
     = [(QUERY_KEYS_materialRequestsList None None None,
         \<lparr> entry_data = Some (CachedPage (ex_page pending)), isInvalidated = True \<rparr>),
        (QUERY_KEYS_materialRequest ''X'',
         \<lparr> entry_data = Some (CachedRequest (ex_request ''X'' pending)),
           isInvalidated = True \<rparr>)]"
  by (simp add: invalidateQueries_def ex_cache_def)

text \<open>
  Claim C2 does not hold of the code. The list queries hold \<open>PaginatedResponse\<close> objects,
  not arrays, so \<open>Array.isArray(old)\<close> is false for them. With a cached list and detail
  query showing X as pending: the \<open>onMutate\<close> of the status change to approved leaves the
  whole cache as it was; the \<open>onMutate\<close> of an update leaves the list page as it was
  (it patches the detail query only); the \<open>onMutate\<close> of the delete throws a
  \<open>TypeError\<close> at the first query, removes no row, and the store is never called, even
  when it would accept the delete.
\<close>

theorem C2_optimistic_update_misses_pages:
  "useUpdateStatus_onMutate (''X'', approved) ex_cache
     = (ex_cache, Inr (cacheData ex_cache))
   \<and> getQueryData ex_cache (QUERY_KEYS_materialRequestsList None None None)
       = Some (CachedPage (ex_page pending))
   \<and> getQueryData (fst (useUpdateMaterialRequest_onMutate (''X'', ex_patch) ex_cache))
         (QUERY_KEYS_materialRequestsList None None None)
       = Some (CachedPage (ex_page pending))
   \<and> useDeleteMaterialRequest_onMutate ''X'' ex_cache
       = (ex_cache, Inl (OtherError ''TypeError'' ''old?.filter is not a function''))
   \<and> store_calls (fst (useDeleteMaterialRequest ex_options True ex_remote_ok ''X''
                          (ex_state ex_cache))) = []"
proof -
  have b: "getQueryData (fst (useUpdateMaterialRequest_onMutate (''X'', ex_patch) ex_cache))
         (QUERY_KEYS_materialRequestsList None None None)
       = Some (CachedPage (ex_page pending))"
    using ex_keys_distinct
    by (simp add: useUpdateMaterialRequest_onMutate_def cancelQueries_def Let_def ex_update_bulk
          ex_cache_lookup getQueryData_setQueryData)
  have e: "store_calls (fst (useDeleteMaterialRequest ex_options True ex_remote_ok ''X''
                          (ex_state ex_cache))) = []"
    by (simp add: useDeleteMaterialRequest_def executeMutation_def ex_state_def ex_delete_throws
          useDeleteMaterialRequest_onError_def useDeleteMaterialRequest_onSettled_def
          surfaceError_def)
  from ex_status_onMutate ex_cache_lookup(1) b ex_delete_throws e show ?thesis by simp
qed

lemma fold_keys_mono:
  "set (map fst c) \<subseteq> set (map fst (fold (\<lambda>(k, d) c'. setQueryData c' k (g k d c')) qs c))"
proof (induction qs arbitrary: c)
  case Nil
  then show ?case by simp
next
  case (Cons a qs)
  obtain k d where a: "a = (k, d)" by (cases a)
  have "set (map fst c) \<subseteq> set (map fst (setQueryData c k (g k d c)))"
    by (rule keys_setQueryData_mono)
  also have "\<dots> \<subseteq> set (map fst (fold (\<lambda>(k, d) c'. setQueryData c' k (g k d c')) qs
                                   (setQueryData c k (g k d c))))"
    by (rule Cons.IH)
  finally show ?case using a by simp
qed

lemma status_settled:
  "\<exists>c0. cache (fst (useUpdateStatus options onLine remote now (rid, st) w))
           = invalidateQueries c0 QUERY_KEYS_materialRequests
        \<and> set (map fst (cache w)) \<subseteq> set (map fst c0)"
proof -
  let ?prev = "getQueriesData (cache w) QUERY_KEYS_materialRequests"
  let ?c1 = "fold (\<lambda>(queryKey, d) c'.
                setQueryData c' queryKey (statusUpdater rid st (getQueryData c' queryKey)))
              ?prev (cache w)"
  have k1: "set (map fst (cache w)) \<subseteq> set (map fst ?c1)"
    by (rule fold_keys_mono [of _ "\<lambda>k d c'. statusUpdater rid st (getQueryData c' k)"])
  have k2: "set (map fst ?c1)
            \<subseteq> set (map fst (fold (\<lambda>(queryKey, d) c'. setQueryData c' queryKey d) ?prev ?c1))"
    by (rule fold_keys_mono [of _ "\<lambda>k d c'. d"])
  show ?thesis
  proof (cases "updateStatus onLine remote now (rid, st)")
    case (Pair r calls)
    show ?thesis
    proof (cases r)
      case (Inl t)
      have "cache (fst (useUpdateStatus options onLine remote now (rid, st) w))
           = invalidateQueries (fold (\<lambda>(queryKey, d) c'. setQueryData c' queryKey d) ?prev ?c1)
               QUERY_KEYS_materialRequests"
        by (simp add: useUpdateStatus_def executeMutation_def useUpdateStatus_onMutate_eq Pair Inl
              useUpdateStatus_onError_def useUpdateStatus_onSettled_def Let_def)
      then show ?thesis using k1 k2 by blast
    next
      case (Inr v)
      have "cache (fst (useUpdateStatus options onLine remote now (rid, st) w))
           = invalidateQueries ?c1 QUERY_KEYS_materialRequests"
        by (simp add: useUpdateStatus_def executeMutation_def useUpdateStatus_onMutate_eq Pair Inr
              useUpdateStatus_onSettled_def surfaceSuccess_def)
      then show ?thesis using k1 by blast
    qed
  qed
qed

lemma update_settled:
  "\<exists>c0. cache (fst (useUpdateMaterialRequest options onLine remote now (rid, dt) w))
           = invalidateQueries (invalidateQueries c0 QUERY_KEYS_materialRequests)
               (QUERY_KEYS_materialRequest rid)
        \<and> set (map fst (cache w)) \<subseteq> set (map fst c0)"
proof -
  obtain c1 thr where b: "setQueriesData (cache w) QUERY_KEYS_materialRequests
                            (updateUpdater rid dt) = (c1, thr)"
    by (cases "setQueriesData (cache w) QUERY_KEYS_materialRequests (updateUpdater rid dt)")
  have "snd (setQueryDataEach (map fst (findAll (cache w) QUERY_KEYS_materialRequests))
               (updateUpdater rid dt) (cache w)) = None"
    by (rule setQueryDataEach_total) (rule updateUpdater_Inr)
  then have thr: "thr = None" using b by (simp add: setQueriesData_def)
  have k1: "set (map fst (cache w)) \<subseteq> set (map fst c1)"
    using setQueryDataEach_keys_mono
            [of "cache w" "map fst (findAll (cache w) QUERY_KEYS_materialRequests)"
               "updateUpdater rid dt"] b
    by (simp add: setQueriesData_def)
  define pr where "pr = getQueryData c1 (QUERY_KEYS_materialRequest rid)"
  define prs where "prs = getQueryData (cache w) QUERY_KEYS_materialRequests"
  define c2 where "c2 = (case pr of
                    Some v \<Rightarrow> setQueryData c1 (QUERY_KEYS_materialRequest rid) (Some (spreadOver v dt))
                  | None \<Rightarrow> c1)"
  have om: "useUpdateMaterialRequest_onMutate (rid, dt) (cache w) = (c2, Inr (prs, pr))"
    by (simp add: useUpdateMaterialRequest_onMutate_def cancelQueries_def Let_def b thr
          pr_def prs_def c2_def)
  have k2: "set (map fst c1) \<subseteq> set (map fst c2)"
    unfolding c2_def using keys_setQueryData_mono by (cases pr) auto
  define c3 where "c3 = (case prs of
                    Some a \<Rightarrow> setQueryData c2 QUERY_KEYS_materialRequests (Some a) | None \<Rightarrow> c2)"
  define c4 where "c4 = (case pr of
                    Some v \<Rightarrow> setQueryData c3 (QUERY_KEYS_materialRequest rid) (Some v)
                  | None \<Rightarrow> c3)"
  have k3: "set (map fst c2) \<subseteq> set (map fst c3)"
    unfolding c3_def using keys_setQueryData_mono by (cases prs) auto
  have k4: "set (map fst c3) \<subseteq> set (map fst c4)"
    unfolding c4_def using keys_setQueryData_mono by (cases pr) auto
  show ?thesis
  proof (cases "updateMaterialRequest onLine remote now (rid, dt)")
    case (Pair r calls)
    show ?thesis
    proof (cases r)
      case (Inl t)
      have "cache (fst (useUpdateMaterialRequest options onLine remote now (rid, dt) w))
           = invalidateQueries (invalidateQueries c4 QUERY_KEYS_materialRequests)
               (QUERY_KEYS_materialRequest rid)"
        by (cases pr; cases prs)
           (simp_all add: useUpdateMaterialRequest_def executeMutation_def om Pair Inl
              useUpdateMaterialRequest_onError_def useUpdateMaterialRequest_onSettled_def
              Let_def c3_def c4_def)
      then show ?thesis using k1 k2 k3 k4 by blast
    next
      case (Inr v)
      have "cache (fst (useUpdateMaterialRequest options onLine remote now (rid, dt) w))
           = invalidateQueries (invalidateQueries c2 QUERY_KEYS_materialRequests)
               (QUERY_KEYS_materialRequest rid)"
        by (simp add: useUpdateMaterialRequest_def executeMutation_def om Pair Inr
              useUpdateMaterialRequest_onSettled_def surfaceSuccess_def)
      then show ?thesis using k1 k2 by blast
    qed
  qed
qed

lemma delete_settled:
  "\<exists>c0. cache (fst (useDeleteMaterialRequest options onLine remote rid w))
           = invalidateQueries c0 QUERY_KEYS_materialRequests
        \<and> set (map fst (cache w)) \<subseteq> set (map fst c0)"
proof -
  obtain c1 thr where b: "setQueriesData (cache w) QUERY_KEYS_materialRequests
                            (deleteUpdater rid) = (c1, thr)"
    by (cases "setQueriesData (cache w) QUERY_KEYS_materialRequests (deleteUpdater rid)")
  have k1: "set (map fst (cache w)) \<subseteq> set (map fst c1)"
    using setQueryDataEach_keys_mono
            [of "cache w" "map fst (findAll (cache w) QUERY_KEYS_materialRequests)"
               "deleteUpdater rid"] b
    by (simp add: setQueriesData_def)
  define prs where "prs = getQueryData (cache w) QUERY_KEYS_materialRequests"
  define c2 where "c2 = (case prs of
                    Some a \<Rightarrow> setQueryData c1 QUERY_KEYS_materialRequests (Some a) | None \<Rightarrow> c1)"
  have k2: "set (map fst c1) \<subseteq> set (map fst c2)"
    unfolding c2_def using keys_setQueryData_mono by (cases prs) auto
  show ?thesis
  proof (cases thr)
    case (Some t)
    have "cache (fst (useDeleteMaterialRequest options onLine remote rid w))
           = invalidateQueries c1 QUERY_KEYS_materialRequests"
      by (simp add: useDeleteMaterialRequest_def executeMutation_def
            useDeleteMaterialRequest_onMutate_def cancelQueries_def Let_def b Some
            useDeleteMaterialRequest_onError_def useDeleteMaterialRequest_onSettled_def)
    then show ?thesis using k1 by blast
  next
    case None
    have om: "useDeleteMaterialRequest_onMutate rid (cache w) = (c1, Inr prs)"
      by (simp add: useDeleteMaterialRequest_onMutate_def cancelQueries_def Let_def b None prs_def)
    show ?thesis
    proof (cases "deleteMaterialRequest onLine remote rid")
      case (Pair r calls)
      show ?thesis
      proof (cases r)
        case (Inl t)
        have "cache (fst (useDeleteMaterialRequest options onLine remote rid w))
             = invalidateQueries c2 QUERY_KEYS_materialRequests"
          by (cases prs)
             (simp_all add: useDeleteMaterialRequest_def executeMutation_def om Pair Inl
                useDeleteMaterialRequest_onError_def useDeleteMaterialRequest_onSettled_def
                Let_def c2_def)
        then show ?thesis using k1 k2 by blast
      next
        case (Inr v)
        have "cache (fst (useDeleteMaterialRequest options onLine remote rid w))
             = invalidateQueries c1 QUERY_KEYS_materialRequests"
          by (simp add: useDeleteMaterialRequest_def executeMutation_def om Pair Inr
                useDeleteMaterialRequest_onSettled_def surfaceSuccess_def)
        then show ?thesis using k1 by blast
      qed
    qed
  qed
qed

lemma invalidated_after:
  assumes "c = invalidateQueries c0 fk" and "(k, q) \<in> set c" and "matchesKey fk k"
  shows "isInvalidated q"
  using assms invalidateQueries_marks by blast

lemma invalidated_after2:
  assumes "c = invalidateQueries (invalidateQueries c0 fk) fk2" and "(k, q) \<in> set c"
      and "matchesKey fk k"
  shows "isInvalidated q"
proof -
  from assms(1,2) obtain q0 where q0: "(k, q0) \<in> set (invalidateQueries c0 fk)"
      "isInvalidated q0 \<longrightarrow> isInvalidated q"
    using invalidateQueries_keeps_marks by blast
  then show ?thesis using invalidateQueries_marks [OF q0(1) assms(3)] by simp
qed

text \<open>
  Claim C5. After a status change, an update or a delete has settled, whatever the store
  answered and whether or not \<open>onMutate\<close> threw, every query whose key starts with
  \<open>["material-requests"]\<close> carries the invalidation mark; no query that was held has
  been dropped; and the list keys and the detail key of the mutated request are keys of
  that kind. The mark is what makes the query library fetch the query again; once the
  fetched value is stored, a read of the query returns it.
\<close>

theorem C5_settled_mutation_invalidates:
  "(\<forall>(k, q) \<in> set (cache (fst (useUpdateStatus options onLine remote now (rid, st) w))).
       matchesKey QUERY_KEYS_materialRequests k \<longrightarrow> isInvalidated q)
   \<and> (\<forall>(k, q) \<in> set (cache (fst (useUpdateMaterialRequest options onLine remote now (rid, dt) w))).
       matchesKey QUERY_KEYS_materialRequests k \<longrightarrow> isInvalidated q)
   \<and> (\<forall>(k, q) \<in> set (cache (fst (useDeleteMaterialRequest options onLine remote rid w))).
       matchesKey QUERY_KEYS_materialRequests k \<longrightarrow> isInvalidated q)
   \<and> set (map fst (cache w))
       \<subseteq> set (map fst (cache (fst (useUpdateStatus options onLine remote now (rid, st) w))))
   \<and> set (map fst (cache w))
       \<subseteq> set (map fst (cache (fst (useUpdateMaterialRequest options onLine remote now (rid, dt) w))))
   \<and> set (map fst (cache w))
       \<subseteq> set (map fst (cache (fst (useDeleteMaterialRequest options onLine remote rid w))))
   \<and> matchesKey QUERY_KEYS_materialRequests (QUERY_KEYS_materialRequestsList f p so)
   \<and> matchesKey QUERY_KEYS_materialRequests (QUERY_KEYS_materialRequest rid)
   \<and> getQueryData
         (setQueryData (cache (fst (useUpdateStatus options onLine remote now (rid, st) w)))
            k (Some fetched)) k = Some fetched"
proof -
  from status_settled [of options onLine remote now rid st w]
  obtain a where a: "cache (fst (useUpdateStatus options onLine remote now (rid, st) w))
           = invalidateQueries a QUERY_KEYS_materialRequests"
       "set (map fst (cache w)) \<subseteq> set (map fst a)" by blast
  from update_settled [of options onLine remote now rid dt w]
  obtain b where b: "cache (fst (useUpdateMaterialRequest options onLine remote now (rid, dt) w))
           = invalidateQueries (invalidateQueries b QUERY_KEYS_materialRequests)
               (QUERY_KEYS_materialRequest rid)"
       "set (map fst (cache w)) \<subseteq> set (map fst b)" by blast
  from delete_settled [of options onLine remote rid w]
  obtain d where d: "cache (fst (useDeleteMaterialRequest options onLine remote rid w))
           = invalidateQueries d QUERY_KEYS_materialRequests"
       "set (map fst (cache w)) \<subseteq> set (map fst d)" by blast
  have 1: "\<forall>(k, q) \<in> set (cache (fst (useUpdateStatus options onLine remote now (rid, st) w))).
       matchesKey QUERY_KEYS_materialRequests k \<longrightarrow> isInvalidated q"
    using invalidated_after [OF a(1)] by blast
  have 2: "\<forall>(k, q) \<in> set (cache (fst (useUpdateMaterialRequest options onLine remote now (rid, dt) w))).
       matchesKey QUERY_KEYS_materialRequests k \<longrightarrow> isInvalidated q"
    using invalidated_after2 [OF b(1)] by blast
  have 3: "\<forall>(k, q) \<in> set (cache (fst (useDeleteMaterialRequest options onLine remote rid w))).
       matchesKey QUERY_KEYS_materialRequests k \<longrightarrow> isInvalidated q"
    using invalidated_after [OF d(1)] by blast
  have 4: "set (map fst (cache w))
       \<subseteq> set (map fst (cache (fst (useUpdateStatus options onLine remote now (rid, st) w))))"
    using a by simp
  have 5: "set (map fst (cache w))
       \<subseteq> set (map fst (cache (fst (useUpdateMaterialRequest options onLine remote now (rid, dt) w))))"
    using b by simp
  have 6: "set (map fst (cache w))
       \<subseteq> set (map fst (cache (fst (useDeleteMaterialRequest options onLine remote rid w))))"
    using d by simp
  from 1 2 3 4 5 6 show ?thesis by (simp add: getQueryData_setQueryData)
qed


theorem C5_settled_mutation_invalidates_witness:
  "cache (fst (useUpdateStatus ex_options True ex_remote_ok ''now'' (''X'', approved)
                 (ex_state ex_cache)))
     = [(QUERY_KEYS_materialRequestsList None None None,
         \<lparr> entry_data = Some (CachedPage (ex_page pending)), isInvalidated = True \<rparr>),
        (QUERY_KEYS_materialRequest ''X'',
         \<lparr> entry_data = Some (CachedRequest (ex_request ''X'' pending)),
           isInvalidated = True \<rparr>)]
   \<and> cache (fst (useUpdateStatus ex_options True (ex_remote [] 0) ''now'' (''X'', approved)
                 (ex_state ex_cache)))
     = [(QUERY_KEYS_materialRequestsList None None None,
         \<lparr> entry_data = Some (CachedPage (ex_page pending)), isInvalidated = True \<rparr>),
        (QUERY_KEYS_materialRequest ''X'',
         \<lparr> entry_data = Some (CachedRequest (ex_request ''X'' pending)),
           isInvalidated = True \<rparr>)]
   \<and> cache (fst (useDeleteMaterialRequest ex_options True ex_remote_ok ''X'' (ex_state ex_cache)))
     = [(QUERY_KEYS_materialRequestsList None None None,
         \<lparr> entry_data = Some (CachedPage (ex_page pending)), isInvalidated = True \<rparr>),
        (QUERY_KEYS_materialRequest ''X'',
         \<lparr> entry_data = Some (CachedRequest (ex_request ''X'' pending)),
           isInvalidated = True \<rparr>)]"
proof -
  have ok: "updateStatus True ex_remote_ok ''now'' (''X'', approved)
      = (Inr (ex_row ''X'' approved), [CallUpdate ''X'' (statusUpdateData approved) ''now''])"
    by (simp add: updateStatus_def ex_remote_ok_def ex_remote_def)
  have ko: "updateStatus True (ex_remote [] 0) ''now'' (''X'', approved)
      = (Inl (AppErr (parsePostgrestError ex_pg_error op_update)),
         [CallUpdate ''X'' (statusUpdateData approved) ''now''])"
    by (simp add: updateStatus_def ex_remote_def)
  have 1: "cache (fst (useUpdateStatus ex_options True ex_remote_ok ''now'' (''X'', approved)
                 (ex_state ex_cache))) = invalidateQueries ex_cache QUERY_KEYS_materialRequests"
    by (simp add: useUpdateStatus_def executeMutation_def ex_state_def ex_status_onMutate ok
          useUpdateStatus_onSettled_def surfaceSuccess_def)
  have 2: "cache (fst (useUpdateStatus ex_options True (ex_remote [] 0) ''now'' (''X'', approved)
                 (ex_state ex_cache))) = invalidateQueries ex_cache QUERY_KEYS_materialRequests"
    by (simp add: useUpdateStatus_def executeMutation_def ex_state_def ex_status_onMutate ko
          useUpdateStatus_onError_def useUpdateStatus_onSettled_def ex_status_restore)
  have 3: "cache (fst (useDeleteMaterialRequest ex_options True ex_remote_ok ''X''
                 (ex_state ex_cache))) = invalidateQueries ex_cache QUERY_KEYS_materialRequests"
    by (simp add: useDeleteMaterialRequest_def executeMutation_def ex_state_def ex_delete_throws
          useDeleteMaterialRequest_onError_def useDeleteMaterialRequest_onSettled_def)
  show ?thesis
    using C5_settled_mutation_invalidates [of ex_options True ex_remote_ok "''now''" "''X''"
            approved "ex_state ex_cache" ex_patch None None None
            "QUERY_KEYS_materialRequest ''X''" "CachedRequest (ex_request ''X'' approved)"]
          C5_settled_mutation_invalidates [of ex_options True "ex_remote [] 0" "''now''" "''X''"
            approved "ex_state ex_cache" ex_patch None None None
            "QUERY_KEYS_materialRequest ''X''" "CachedRequest (ex_request ''X'' approved)"]
    unfolding 1 2 3 ex_invalidated
    by simp
qed

end
